theory Spec2Isabelle
  imports Main
begin

section \<open>Exceptions of the service\<close>

text \<open>
  Every exception class that the modelled code raises or lets through is a constructor.
  \<open>DatabaseError\<close> carries the operation and the reason. The three collection errors
  of \<^verbatim>\<open>core/exceptions.py\<close> carry the URL and the reason; their message, the
  \<^verbatim>\<open>str\<close> of the exception, is built by \<open>message\<close> below.
\<close>

datatype error =
    ValueError string
  | RuntimeError string
  | BufferError string
  | TypeError string
  | AttributeError string
  | IndexError string
  | KeyError string
  | KafkaException string
  | ValidationError string
  | DatabaseError string string
  | CollectionError string string
  | PermanentCollectionError string string
  | TransientCollectionError string string

definition quoted :: "string \<Rightarrow> string" where
  "quoted s = [CHR 0x27] @ s @ [CHR 0x27]"

fun message :: "error \<Rightarrow> string" where
  "message (ValueError m) = m"
| "message (RuntimeError m) = m"
| "message (BufferError m) = m"
| "message (TypeError m) = m"
| "message (AttributeError m) = m"
| "message (IndexError m) = m"
| "message (KeyError m) = m"
| "message (KafkaException m) = m"
| "message (ValidationError m) = m"
| "message (DatabaseError operation reason) =
     ''Database error during '' @ quoted operation @ '': '' @ reason"
| "message (CollectionError url reason) =
     ''Failed to collect metadata for '' @ quoted url @ '': '' @ reason"
| "message (PermanentCollectionError url reason) =
     ''Failed to collect metadata for '' @ quoted url @ '': '' @ reason"
| "message (TransientCollectionError url reason) =
     ''Failed to collect metadata for '' @ quoted url @ '': '' @ reason"

section \<open>Python strings\<close>

text \<open>
  A Python \<^verbatim>\<open>str\<close> is modelled as a \<^typ>\<open>string\<close>; the model is exact on ASCII text
  (on it a character is a code point, and \<^verbatim>\<open>lower\<close> touches the letters A to Z only).
\<close>

definition lower_char :: "char \<Rightarrow> char" where
  "lower_char c =
     (case map_of (zip ''ABCDEFGHIJKLMNOPQRSTUVWXYZ'' ''abcdefghijklmnopqrstuvwxyz'') c of
        Some l \<Rightarrow> l
      | None \<Rightarrow> c)"

definition lower :: "string \<Rightarrow> string" where
  "lower s = map lower_char s"

definition startswith :: "string \<Rightarrow> string \<Rightarrow> bool" where
  "startswith s p = (take (length p) s = p)"

definition endswith :: "string \<Rightarrow> string \<Rightarrow> bool" where
  "endswith s p = (length p \<le> length s \<and> drop (length s - length p) s = p)"

text \<open>\<^verbatim>\<open>s.partition(c)\<close> for a one-character separator: the text before the first
  \<open>c\<close>, whether \<open>c\<close> was found, and the text after it.\<close>

fun partition_chr :: "char \<Rightarrow> string \<Rightarrow> string \<times> bool \<times> string" where
  "partition_chr c [] = ([], False, [])"
| "partition_chr c (x # xs) =
     (if x = c then ([], True, xs)
      else (case partition_chr c xs of (a, f, b) \<Rightarrow> (x # a, f, b)))"

text \<open>\<^verbatim>\<open>s.rpartition(c)[2]\<close>: the text after the last \<open>c\<close>, the whole of \<open>s\<close> when there
  is none.\<close>

fun after_last :: "char \<Rightarrow> string \<Rightarrow> string" where
  "after_last c [] = []"
| "after_last c (x # xs) = (if c \<in> set xs then after_last c xs else if x = c then xs else x # xs)"

text \<open>\<^verbatim>\<open>s.rstrip(c)\<close> and \<^verbatim>\<open>s.split(c)\<close> for a one-character \<open>c\<close>.\<close>

definition rstrip_chr :: "char \<Rightarrow> string \<Rightarrow> string" where
  "rstrip_chr c s = rev (dropWhile (\<lambda>x. x = c) (rev s))"

fun split_chr :: "char \<Rightarrow> string \<Rightarrow> string list" where
  "split_chr c [] = [[]]"
| "split_chr c (x # xs) =
     (if x = c then [] # split_chr c xs
      else (case split_chr c xs of [] \<Rightarrow> [[x]] | w # ws \<Rightarrow> (x # w) # ws))"

text \<open>\<^verbatim>\<open>c.isdigit()\<close> on ASCII, \<^verbatim>\<open>int(s)\<close> on a string of digits, and \<^verbatim>\<open>str(n)\<close>
  for a natural number.\<close>

definition isdigit_char :: "char \<Rightarrow> bool" where
  "isdigit_char c = (let n = (of_char c :: nat) in 48 \<le> n \<and> n \<le> 57)"

definition isdigit :: "string \<Rightarrow> bool" where
  "isdigit s = (s \<noteq> [] \<and> list_all isdigit_char s)"

definition int_of_digits :: "string \<Rightarrow> nat" where
  "int_of_digits s = foldl (\<lambda>acc c. 10 * acc + (of_char c - 48)) 0 s"

definition digit_char :: "nat \<Rightarrow> char" where
  "digit_char d = ''0123456789'' ! (d mod 10)"

function str_nat_acc :: "nat \<Rightarrow> string \<Rightarrow> string" where
  "str_nat_acc n acc =
     (if n < 10 then digit_char n # acc
      else str_nat_acc (n div 10) (digit_char (n mod 10) # acc))"
  by pat_completeness auto
termination
  by (relation "measure fst") auto

declare str_nat_acc.simps [simp del]

definition str_nat :: "nat \<Rightarrow> string" where
  "str_nat n = str_nat_acc n []"

text \<open>Comparison of strings by code point, as Python's \<^verbatim>\<open>sorted\<close> compares keys.\<close>

fun str_le :: "string \<Rightarrow> string \<Rightarrow> bool" where
  "str_le [] ys = True"
| "str_le (x # xs) [] = False"
| "str_le (x # xs) (y # ys) =
     ((of_char x :: nat) < of_char y \<or> (x = y \<and> str_le xs ys))"

section \<open>The parts of \<^verbatim>\<open>urllib.parse\<close> that the canonicalizer calls\<close>

text \<open>
  The model follows \<^verbatim>\<open>urllib.parse\<close> of CPython 3.11.10 on ASCII text whose
  percent-escapes decode to ASCII (the normalisation check of a non-ASCII host and the
  decoding of escaped bytes as UTF-8 are outside it). A \<^verbatim>\<open>ValueError\<close> of the library
  is the value \<open>Inl (ValueError msg)\<close>. \<^verbatim>\<open>_check_bracketed_host\<close>, which parses what
  stands between the brackets of a host with the module \<^verbatim>\<open>ipaddress\<close>, is the
  parameter \<open>check_host\<close>: it gives the message of the \<^verbatim>\<open>ValueError\<close> that the check
  raises, or \<open>None\<close> when the check passes.
\<close>

record ParseResult =
  scheme :: string
  netloc :: string
  path :: string
  params :: string
  query :: string
  fragment :: string

definition isalpha_char :: "char \<Rightarrow> bool" where
  "isalpha_char c =
     (let n = (of_char c :: nat) in (65 \<le> n \<and> n \<le> 90) \<or> (97 \<le> n \<and> n \<le> 122))"

definition scheme_char :: "char \<Rightarrow> bool" where
  "scheme_char c = (isalpha_char c \<or> isdigit_char c \<or> c \<in> set ''+-.'')"

text \<open>\<^verbatim>\<open>urlsplit\<close>: leading control characters and spaces are stripped, tab, CR and LF
  are removed, then scheme, authority, fragment and query are cut off in this order.\<close>

definition split_scheme :: "string \<Rightarrow> string \<times> string" where
  "split_scheme url =
     (case partition_chr CHR '':'' url of
        (a, found, b) \<Rightarrow>
          if found \<and> a \<noteq> [] \<and> isalpha_char (hd a) \<and> list_all scheme_char a
          then (lower a, b) else ([], url))"

definition netloc_delim :: "char \<Rightarrow> bool" where
  "netloc_delim c = (c \<in> set ''/?#'')"

definition splitnetloc :: "string \<Rightarrow> string \<times> string" where
  "splitnetloc url =
     (takeWhile (\<lambda>c. \<not> netloc_delim c) (drop 2 url),
      dropWhile (\<lambda>c. \<not> netloc_delim c) (drop 2 url))"

text \<open>\<^verbatim>\<open>netloc.partition('[')[2].partition(']')[0]\<close>.\<close>

definition bracketed_host :: "string \<Rightarrow> string" where
  "bracketed_host nl =
     (case partition_chr CHR ''['' nl of
        (_, _, b) \<Rightarrow> (case partition_chr CHR '']'' b of (h, _, _) \<Rightarrow> h))"

definition urlsplit :: "(string \<Rightarrow> string option) \<Rightarrow> string \<Rightarrow> error + ParseResult" where
  "urlsplit check_host url0 =
     (let url1 = dropWhile (\<lambda>c. (of_char c :: nat) \<le> 32) url0;
          url2 = filter (\<lambda>c. (of_char c :: nat) \<notin> {9, 10, 13}) url1;
          (sch, url3) = split_scheme url2;
          (nl, url4) = (if take 2 url3 = ''//'' then splitnetloc url3 else ([], url3))
      in if (CHR ''['' \<in> set nl \<and> CHR '']'' \<notin> set nl) \<or>
            (CHR '']'' \<in> set nl \<and> CHR ''['' \<notin> set nl)
         then Inl (ValueError ''Invalid IPv6 URL'')
         else
           (case (if CHR ''['' \<in> set nl \<and> CHR '']'' \<in> set nl
                  then check_host (bracketed_host nl) else None) of
              Some msg \<Rightarrow> Inl (ValueError msg)
            | None \<Rightarrow>
                (case partition_chr CHR ''#'' url4 of
                   (url5, _, frag) \<Rightarrow>
                     (case partition_chr CHR ''?'' url5 of
                        (url6, _, qry) \<Rightarrow>
                          Inr \<lparr>scheme = sch, netloc = nl, path = url6, params = [],
                               query = qry, fragment = frag\<rparr>))))"

text \<open>\<^verbatim>\<open>_splitparams\<close>: the parameters are what follows the first \<open>;\<close> of the last
  path segment.\<close>

definition splitparams :: "string \<Rightarrow> string \<times> string" where
  "splitparams url =
     (if CHR ''/'' \<in> set url
      then (let k = length url - length (after_last CHR ''/'' url) - 1;
                seg = drop k url
            in case partition_chr CHR '';'' seg of
                 (a, found, b) \<Rightarrow> if found then (take k url @ a, b) else (url, []))
      else (case partition_chr CHR '';'' url of (a, _, b) \<Rightarrow> (a, b)))"

definition uses_params :: "string list" where
  "uses_params = [[], ''ftp'', ''hdl'', ''prospero'', ''http'', ''imap'', ''https'',
     ''shttp'', ''rtsp'', ''rtsps'', ''rtspu'', ''sip'', ''sips'', ''mms'', ''sftp'', ''tel'']"

definition urlparse :: "(string \<Rightarrow> string option) \<Rightarrow> string \<Rightarrow> error + ParseResult" where
  "urlparse check_host url =
     (case urlsplit check_host url of
        Inl e \<Rightarrow> Inl e
      | Inr r \<Rightarrow>
          if scheme r \<in> set uses_params \<and> CHR '';'' \<in> set (path r)
          then (case splitparams (path r) of (u, p) \<Rightarrow> Inr (r\<lparr>path := u, params := p\<rparr>))
          else Inr r)"

text \<open>The properties \<^verbatim>\<open>_hostinfo\<close>, \<^verbatim>\<open>hostname\<close> and \<^verbatim>\<open>port\<close> of a parse result.\<close>

definition hostinfo :: "ParseResult \<Rightarrow> string \<times> string option" where
  "hostinfo r =
     (let hi = after_last CHR ''@'' (netloc r);
          (hn, prt) =
            (case partition_chr CHR ''['' hi of
               (_, have_open_br, bracketed) \<Rightarrow>
                 if have_open_br
                 then (case partition_chr CHR '']'' bracketed of
                         (h, _, p) \<Rightarrow>
                           (case partition_chr CHR '':'' p of (_, _, p') \<Rightarrow> (h, p')))
                 else (case partition_chr CHR '':'' hi of (h, _, p) \<Rightarrow> (h, p)))
      in (hn, if prt = [] then None else Some prt))"

definition hostname :: "ParseResult \<Rightarrow> string option" where
  "hostname r =
     (let hn = fst (hostinfo r)
      in if hn = [] then None
         else (case partition_chr CHR ''%'' hn of
                 (h, percent, zone) \<Rightarrow>
                   Some (lower h @ (if percent then ''%'' else []) @ zone)))"

definition port :: "ParseResult \<Rightarrow> error + nat option" where
  "port r =
     (case snd (hostinfo r) of
        None \<Rightarrow> Inr None
      | Some p \<Rightarrow>
          if isdigit p
          then (if int_of_digits p \<le> 65535 then Inr (Some (int_of_digits p))
                else Inl (ValueError ''Port out of range 0-65535''))
          else Inl (ValueError (''Port could not be cast to integer value as '' @ quoted p)))"

text \<open>\<^verbatim>\<open>unquote\<close>: a \<open>%\<close> followed by two hexadecimal digits is the character with that
  code (\<open>chr\<close> builds it from its eight bits); any other \<open>%\<close> stays.\<close>

definition chr :: "nat \<Rightarrow> char" where
  "chr n = Char (odd n) (odd (n div 2)) (odd (n div 4)) (odd (n div 8))
             (odd (n div 16)) (odd (n div 32)) (odd (n div 64)) (odd (n div 128))"

definition hexval :: "char \<Rightarrow> nat option" where
  "hexval c =
     (let n = (of_char c :: nat)
      in if 48 \<le> n \<and> n \<le> 57 then Some (n - 48)
         else if 65 \<le> n \<and> n \<le> 70 then Some (n - 55)
         else if 97 \<le> n \<and> n \<le> 102 then Some (n - 87)
         else None)"

fun unquote :: "string \<Rightarrow> string" where
  "unquote (c # h1 # h2 # rest) =
     (if c = CHR ''%''
      then (case (hexval h1, hexval h2) of
              (Some a, Some b) \<Rightarrow> chr (16 * a + b) # unquote rest
            | _ \<Rightarrow> c # unquote (h1 # h2 # rest))
      else c # unquote (h1 # h2 # rest))"
| "unquote cs = cs"

definition replace_chr :: "char \<Rightarrow> char \<Rightarrow> string \<Rightarrow> string" where
  "replace_chr a b s = map (\<lambda>c. if c = a then b else c) s"

text \<open>\<^verbatim>\<open>parse_qsl(qs, keep_blank_values=True)\<close> and \<^verbatim>\<open>parse_qs\<close>, whose dictionary
  is an association list in the order in which the names first occur.\<close>

definition parse_field :: "string \<Rightarrow> string \<times> string" where
  "parse_field name_value =
     (case partition_chr CHR ''='' name_value of
        (n, _, v) \<Rightarrow>
          (unquote (replace_chr CHR ''+'' CHR '' '' n),
           unquote (replace_chr CHR ''+'' CHR '' '' v)))"

definition parse_qsl :: "string \<Rightarrow> (string \<times> string) list" where
  "parse_qsl qs = map parse_field (filter (\<lambda>nv. nv \<noteq> []) (split_chr CHR ''&'' qs))"

fun dict_append :: "(string \<times> string list) list \<Rightarrow> string \<Rightarrow> string \<Rightarrow> (string \<times> string list) list" where
  "dict_append [] n v = [(n, [v])]"
| "dict_append ((k, vs) # d) n v =
     (if k = n then (k, vs @ [v]) # d else (k, vs) # dict_append d n v)"

definition parse_qs :: "string \<Rightarrow> (string \<times> string list) list" where
  "parse_qs qs = foldl (\<lambda>d (n, v). dict_append d n v) [] (parse_qsl qs)"

text \<open>\<^verbatim>\<open>quote_plus\<close> with no extra safe character, and \<^verbatim>\<open>urlencode\<close> of a list of
  pairs.\<close>

definition always_safe :: "char \<Rightarrow> bool" where
  "always_safe c = (isalpha_char c \<or> isdigit_char c \<or> c \<in> set ''_.-~'')"

definition hexdigit :: "nat \<Rightarrow> char" where
  "hexdigit d = ''0123456789ABCDEF'' ! (d mod 16)"

definition quote_char :: "string \<Rightarrow> char \<Rightarrow> string" where
  "quote_char safe c =
     (if always_safe c \<or> c \<in> set safe then [c]
      else [CHR ''%'', hexdigit ((of_char c :: nat) div 16), hexdigit ((of_char c :: nat) mod 16)])"

definition quote :: "string \<Rightarrow> string \<Rightarrow> string" where
  "quote s safe = concat (map (quote_char safe) s)"

definition quote_plus :: "string \<Rightarrow> string" where
  "quote_plus s =
     (if CHR '' '' \<notin> set s then quote s []
      else replace_chr CHR '' '' CHR ''+'' (quote s '' ''))"

fun join_amp :: "string list \<Rightarrow> string" where
  "join_amp [] = []"
| "join_amp [x] = x"
| "join_amp (x # y # ys) = x @ ''&'' @ join_amp (y # ys)"

definition urlencode :: "(string \<times> string) list \<Rightarrow> string" where
  "urlencode q = join_amp (map (\<lambda>(k, v). quote_plus k @ ''='' @ quote_plus v) q)"

text \<open>\<^verbatim>\<open>sorted(pairs, key=lambda x: x[0])\<close>: a stable sort on the names.\<close>

fun insort_pair :: "string \<times> string \<Rightarrow> (string \<times> string) list \<Rightarrow> (string \<times> string) list" where
  "insort_pair x [] = [x]"
| "insort_pair x (y # ys) =
     (if str_le (fst x) (fst y) then x # y # ys else y # insort_pair x ys)"

definition sorted_by_name :: "(string \<times> string) list \<Rightarrow> (string \<times> string) list" where
  "sorted_by_name ps = foldr insort_pair ps []"

text \<open>\<^verbatim>\<open>urlunsplit\<close> and \<^verbatim>\<open>urlunparse\<close>.\<close>

definition uses_netloc :: "string list" where
  "uses_netloc = [[], ''ftp'', ''http'', ''gopher'', ''nntp'', ''telnet'', ''imap'', ''wais'',
     ''file'', ''mms'', ''https'', ''shttp'', ''snews'', ''prospero'', ''rtsp'', ''rtsps'',
     ''rtspu'', ''rsync'', ''svn'', ''svn+ssh'', ''sftp'', ''nfs'', ''git'', ''git+ssh'', ''ws'', ''wss'']"

definition urlunsplit :: "string \<Rightarrow> string \<Rightarrow> string \<Rightarrow> string \<Rightarrow> string \<Rightarrow> string" where
  "urlunsplit sch nl url0 qry frag =
     (let url1 =
            (if nl \<noteq> [] \<or> (sch \<noteq> [] \<and> sch \<in> set uses_netloc) \<or> take 2 url0 = ''//''
             then ''//'' @ nl @ (if url0 \<noteq> [] \<and> take 1 url0 \<noteq> ''/'' then ''/'' @ url0 else url0)
             else url0);
          url2 = (if sch \<noteq> [] then sch @ '':'' @ url1 else url1);
          url3 = (if qry \<noteq> [] then url2 @ ''?'' @ qry else url2)
      in if frag \<noteq> [] then url3 @ ''#'' @ frag else url3)"

definition urlunparse :: "ParseResult \<Rightarrow> string" where
  "urlunparse r =
     urlunsplit (scheme r) (netloc r)
       (if params r \<noteq> [] then path r @ '';'' @ params r else path r)
       (query r) (fragment r)"

section \<open>The URL canonicalizer (\<^verbatim>\<open>utils/url_normalizer.py\<close>)\<close>

text \<open>\<^verbatim>\<open>[(k, v[0]) for k, v in query_params.items()]\<close>; indexing an empty list raises
  \<^verbatim>\<open>IndexError\<close>.\<close>

fun first_values :: "(string \<times> string list) list \<Rightarrow> error + (string \<times> string) list" where
  "first_values [] = Inr []"
| "first_values ((k, []) # d) = Inl (IndexError ''list index out of range'')"
| "first_values ((k, v # vs) # d) =
     (case first_values d of Inl e \<Rightarrow> Inl e | Inr r \<Rightarrow> Inr ((k, v) # r))"

definition normalize_url :: "(string \<Rightarrow> string option) \<Rightarrow> string \<Rightarrow> error + string" where
  "normalize_url check_host url0 =
     (let url = (if startswith (lower url0) ''http://'' \<or> startswith (lower url0) ''https://''
                 then url0 else ''https://'' @ url0)
      in case urlparse check_host url of
           Inl e \<Rightarrow> Inl e
         | Inr parsed \<Rightarrow>
             (let scheme' = lower (scheme parsed);
                  hostname' = lower (case hostname parsed of None \<Rightarrow> [] | Some h \<Rightarrow> h)
              in case port parsed of
                   Inl e \<Rightarrow> Inl e
                 | Inr port0 \<Rightarrow>
                     (let port' = (if (scheme' = ''http'' \<and> port0 = Some 80) \<or>
                                      (scheme' = ''https'' \<and> port0 = Some 443)
                                   then None else port0);
                          netloc' = (case port' of
                                       None \<Rightarrow> hostname'
                                     | Some p \<Rightarrow> if p \<noteq> 0 then hostname' @ '':'' @ str_nat p
                                                else hostname');
                          path0 = path parsed;
                          path1 = (if path0 \<noteq> ''/'' \<and> endswith path0 ''/''
                                   then rstrip_chr CHR ''/'' path0 else path0);
                          path' = (if path1 = [] then ''/'' else path1);
                          query_params = parse_qs (query parsed)
                      in case (if query_params \<noteq> []
                               then (case first_values query_params of
                                       Inl e \<Rightarrow> Inl e
                                     | Inr ps \<Rightarrow> Inr (urlencode (sorted_by_name ps)))
                               else Inr []) of
                           Inl e \<Rightarrow> Inl e
                         | Inr sorted_query \<Rightarrow>
                             Inr (urlunparse \<lparr>scheme = scheme', netloc = netloc',
                                    path = path', params = [], query = sorted_query,
                                    fragment = []\<rparr>))))"

section \<open>The document store (\<^verbatim>\<open>infrastructure/db/repository.py\<close>)\<close>

subsection \<open>Values, documents and the driver\<close>

text \<open>
  A document is a map from field names to values; a value can be a dictionary, which the
  store holds as an embedded document, an association list in the order of its fields.
  The collection \<^verbatim>\<open>metadata\<close> has a unique index on \<^verbatim>\<open>url\<close> (\<^verbatim>\<open>ensure_indexes\<close>), so
  it is a map from the URL to the one document that carries it. Identifiers that the
  server assigns come from the counter \<open>next_oid\<close>; the index on \<^verbatim>\<open>_id\<close> is not
  modelled, no value is an array, and the limits of the server on the size and the depth
  of a document are left out. A Python dictionary handed to the driver is an association
  list. The store is connected: \<^verbatim>\<open>get_database\<close> returns.

  The driver can fail: \<open>faults\<close> says, call by call, whether the next call runs
  (\<open>None\<close>, also when the list is used up) or raises the given error and leaves the
  collection as it is. \<open>DuplicateKeyError\<close> is a subclass of \<open>PyMongoError\<close>; the
  second constructor stands for every other subclass, and carries the text of the error
  in short. A \<open>DuplicateKeyError\<close> in \<open>faults\<close> is the insert of an upsert that lost
  against a concurrent insert.
\<close>

datatype val =
    PyNone
  | Str string
  | Num int
  | Time nat
  | ObjectId nat
  | Dict "(string \<times> val) list"

type_synonym document = "string \<rightharpoonup> val"

type_synonym pydict = "(string \<times> val) list"

datatype pymongo_error = DuplicateKeyError string | PyMongoError string

fun exc_str :: "pymongo_error \<Rightarrow> string" where
  "exc_str (DuplicateKeyError m) = m"
| "exc_str (PyMongoError m) = m"

record mongo =
  docs :: "string \<rightharpoonup> document"
  next_oid :: nat
  faults :: "pymongo_error option list"

record query =
  q_url :: string
  q_status_nin :: "string list"

record update_result =
  matched_count :: nat
  modified_count :: nat
  upserted_id :: "val option"

text \<open>\<^verbatim>\<open>d[k] = v\<close> on a Python dictionary.\<close>

fun dict_set :: "pydict \<Rightarrow> string \<Rightarrow> val \<Rightarrow> pydict" where
  "dict_set [] k v = [(k, v)]"
| "dict_set ((k', v') # d) k v = (if k' = k then (k, v) # d else (k', v') # dict_set d k v)"

text \<open>
  What the driver encodes and every version of the server stores: \<open>bson v\<close> holds when
  the integers of \<open>v\<close> fit 64 bits and the dictionaries of \<open>v\<close>, at every depth, name no
  field twice and only fields whose name is not empty, has no dot and no NUL and does not
  start with a dollar. For another value the driver raises an error of its encoder,
  which is no \<open>PyMongoError\<close>, or the server refuses or stores it, by its version; the
  model does not say which, and \<open>update_one\<close> below is the server's answer for values
  that satisfy \<open>bson\<close>.
\<close>

definition field_name :: "string \<Rightarrow> bool" where
  "field_name k =
     (k \<noteq> [] \<and> hd k \<noteq> CHR ''$'' \<and> CHR ''.'' \<notin> set k \<and> CHR 0x00 \<notin> set k)"


text \<open>What the driver does at the next call, and the store once the call is made.\<close>

definition fault_now :: "mongo \<Rightarrow> pymongo_error option" where
  "fault_now db = (case faults db of [] \<Rightarrow> None | f # fs \<Rightarrow> f)"

definition called :: "mongo \<Rightarrow> mongo" where
  "called db = db\<lparr>faults := tl (faults db)\<rparr>"

definition next_fault :: "mongo \<Rightarrow> pymongo_error option \<times> mongo" where
  "next_fault db = (fault_now db, called db)"

text \<open>The filter \<^verbatim>\<open>{"url": u, "status": {"$nin": [...]}}\<close>: \<^verbatim>\<open>$nin\<close> also selects a
  document that has no such field.\<close>

definition matches :: "query \<Rightarrow> document \<Rightarrow> bool" where
  "matches q d =
     (case d ''status'' of
        None \<Rightarrow> True
      | Some v \<Rightarrow> v \<notin> set (map Str (q_status_nin q)))"

definition find_one :: "query \<Rightarrow> mongo \<Rightarrow> (pymongo_error + document option) \<times> mongo" where
  "find_one q db =
     (case next_fault db of
        (Some e, db1) \<Rightarrow> (Inl e, db1)
      | (None, db1) \<Rightarrow>
          (case docs db1 (q_url q) of
             None \<Rightarrow> (Inr None, db1)
           | Some d \<Rightarrow> (Inr (if matches q d then Some d else None), db1)))"

subsection \<open>Field paths of an update\<close>

text \<open>
  The server reads a name in \<^verbatim>\<open>$set\<close> and \<^verbatim>\<open>$setOnInsert\<close> as a path: the names of a
  field, of a field of the embedded document it holds, and so on, separated by dots.
  Two paths conflict when they are equal or one continues the other.
\<close>

definition field_path :: "string \<Rightarrow> string list" where
  "field_path p = split_chr CHR ''.'' p"

fun is_prefix :: "string list \<Rightarrow> string list \<Rightarrow> bool" where
  "is_prefix [] q = True"
| "is_prefix (a # p) [] = False"
| "is_prefix (a # p) (b # q) = (a = b \<and> is_prefix p q)"

definition conflict :: "string list \<Rightarrow> string list \<Rightarrow> bool" where
  "conflict p q = (is_prefix p q \<or> is_prefix q p)"

fun conflicting :: "string list list \<Rightarrow> bool" where
  "conflicting [] = False"
| "conflicting (p # ps) = (list_ex (conflict p) ps \<or> conflicting ps)"

text \<open>
  \<open>set_field ks v d\<close> is the document \<open>d\<close> with \<open>v\<close> at the path \<open>ks\<close>. The server makes
  the embedded documents that the path needs and \<open>d\<close> does not have (\<open>nest\<close>), at the end
  of the document they go into, and refuses (\<open>None\<close>) a path that leads through a value
  that is no document. \<open>get_field ks d\<close> is the value that \<open>d\<close> has at the path, and
  \<open>apply_set s d\<close> sets every path of the operator \<open>s\<close>, one after the other.
\<close>

fun nest :: "string list \<Rightarrow> val \<Rightarrow> val" where
  "nest [] v = v"
| "nest (k # ks) v = Dict [(k, nest ks v)]"

fun set_in :: "string list \<Rightarrow> val \<Rightarrow> val \<Rightarrow> val option" where
  "set_in [] v x = Some v"
| "set_in (k # ks) v (Dict d) =
     (case map_of d k of
        None \<Rightarrow> Some (Dict (d @ [(k, nest ks v)]))
      | Some y \<Rightarrow>
          (case set_in ks v y of
             None \<Rightarrow> None
           | Some y' \<Rightarrow> Some (Dict (dict_set d k y'))))"
| "set_in (k # ks) v x = None"

definition set_field :: "string list \<Rightarrow> val \<Rightarrow> document \<Rightarrow> document option" where
  "set_field ks v d =
     (case ks of
        [] \<Rightarrow> None
      | k # ks' \<Rightarrow>
          (case d k of
             None \<Rightarrow> Some (d(k \<mapsto> nest ks' v))
           | Some x \<Rightarrow>
               (case set_in ks' v x of
                  None \<Rightarrow> None
                | Some y \<Rightarrow> Some (d(k \<mapsto> y)))))"

fun get_in :: "string list \<Rightarrow> val \<Rightarrow> val option" where
  "get_in [] x = Some x"
| "get_in (k # ks) (Dict d) =
     (case map_of d k of
        None \<Rightarrow> None
      | Some y \<Rightarrow> get_in ks y)"
| "get_in (k # ks) x = None"

definition get_field :: "string list \<Rightarrow> document \<Rightarrow> val option" where
  "get_field ks d =
     (case ks of
        [] \<Rightarrow> None
      | k # ks' \<Rightarrow>
          (case d k of
             None \<Rightarrow> None
           | Some x \<Rightarrow> get_in ks' x))"

fun apply_set :: "pydict \<Rightarrow> document \<Rightarrow> document option" where
  "apply_set [] d = Some d"
| "apply_set ((p, v) # s) d =
     (case set_field (field_path p) v d of
        None \<Rightarrow> None
      | Some d' \<Rightarrow> apply_set s d')"

subsection \<open>\<^verbatim>\<open>update_one\<close>\<close>

text \<open>
  \<^verbatim>\<open>update_one(filter, {"$set": s, "$setOnInsert": i}, upsert=u)\<close>. Before it looks for
  a document, the server refuses an update with a path that has an empty name, with a
  path that has a name starting with a dollar (it addresses the elements of an array,
  which no document of the model has, or is a name that a server before version 5.0 does
  not store), and with two paths that conflict, in one operator or in both. With a
  matching document it applies \<^verbatim>\<open>$set\<close>, and refuses when a path leads through a value
  that is no document and when the update would change \<^verbatim>\<open>_id\<close>; the document counts
  as modified when a path did not have its value before. With none and \<open>u\<close> it builds
  a document from the filter's URL and both operators and inserts it, which the unique
  index refuses when the URL already has a document (one that the filter did not select).
  A name with a NUL does not reach the server (the encoder of the driver refuses it);
  this is left out, as it is for the values.
\<close>

definition update_one ::
  "query \<Rightarrow> pydict \<Rightarrow> pydict \<Rightarrow> bool \<Rightarrow> mongo \<Rightarrow> (pymongo_error + update_result) \<times> mongo" where
  "update_one q s i u db =
     (case next_fault db of
        (Some e, db1) \<Rightarrow> (Inl e, db1)
      | (None, db1) \<Rightarrow>
          if list_ex (\<lambda>(p, _). [] \<in> set (field_path p)) (s @ i)
          then (Inl (PyMongoError ''The update path contains an empty field name''), db1)
          else if list_ex (\<lambda>(p, _). list_ex (\<lambda>c. hd c = CHR ''$'') (field_path p)) (s @ i)
          then (Inl (PyMongoError ''The dollar ($) prefixed field is not valid for storage''), db1)
          else if conflicting (map (\<lambda>(p, _). field_path p) (s @ i))
          then (Inl (PyMongoError ''Updating the path would create a conflict''), db1)
          else
            (case docs db1 (q_url q) of
               Some d \<Rightarrow>
                 if matches q d
                 then (case apply_set s d of
                         None \<Rightarrow> (Inl (PyMongoError ''Cannot create field in element''), db1)
                       | Some d' \<Rightarrow>
                           if d' ''_id'' \<noteq> d ''_id''
                           then (Inl (PyMongoError ''Performing an update on the path _id would modify the immutable field _id''), db1)
                           else (Inr \<lparr>matched_count = 1,
                                      modified_count =
                                        (if list_all (\<lambda>(p, v). get_field (field_path p) d = Some v) s
                                         then 0 else 1),
                                      upserted_id = None\<rparr>,
                                 db1\<lparr>docs := (docs db1)(q_url q \<mapsto> d')\<rparr>))
                 else if u
                 then (case apply_set (s @ i) [''url'' \<mapsto> Str (q_url q)] of
                         None \<Rightarrow> (Inl (PyMongoError ''Cannot create field in element''), db1)
                       | Some d0 \<Rightarrow> (Inl (DuplicateKeyError ''E11000 duplicate key error''), db1))
                 else (Inr \<lparr>matched_count = 0, modified_count = 0, upserted_id = None\<rparr>, db1)
             | None \<Rightarrow>
                 if u
                 then (case apply_set (s @ i) [''url'' \<mapsto> Str (q_url q)] of
                         None \<Rightarrow> (Inl (PyMongoError ''Cannot create field in element''), db1)
                       | Some d0 \<Rightarrow>
                           (let oid = (case d0 ''_id'' of
                                         None \<Rightarrow> ObjectId (next_oid db1)
                                       | Some v \<Rightarrow> v)
                            in (Inr \<lparr>matched_count = 0, modified_count = 0, upserted_id = Some oid\<rparr>,
                                db1\<lparr>docs := (docs db1)(q_url q \<mapsto> d0(''_id'' \<mapsto> oid)),
                                    next_oid := Suc (next_oid db1)\<rparr>)))
                 else (Inr \<lparr>matched_count = 0, modified_count = 0, upserted_id = None\<rparr>, db1)))"

text \<open>
  In every call below \<^verbatim>\<open>$set\<close> carries the filter's URL or none, so a document stays
  under its URL.

  Python's truth value of a value and of a document (a dictionary is false when empty).
\<close>

fun truthy :: "val \<Rightarrow> bool" where
  "truthy PyNone = False"
| "truthy (Str s) = (s \<noteq> [])"
| "truthy (Num i) = (i \<noteq> 0)"
| "truthy (Time t) = True"
| "truthy (ObjectId n) = True"
| "truthy (Dict d) = (d \<noteq> [])"

subsection \<open>\<^verbatim>\<open>MetadataRepository\<close>\<close>

text \<open>
  Each method takes the time \<open>now\<close> that \<^verbatim>\<open>datetime.now(timezone.utc)\<close> returns and the
  store, and returns its result, or the exception it raises, with the store. \<open>upsert\<close>
  also takes Python's \<^verbatim>\<open>str\<close> on identifiers as \<open>str_of\<close>.
\<close>

definition find_by_url :: "string \<Rightarrow> mongo \<Rightarrow> (error + document option) \<times> mongo" where
  "find_by_url url db =
     (case find_one \<lparr>q_url = url, q_status_nin = []\<rparr> db of
        (Inl exc, db1) \<Rightarrow> (Inl (DatabaseError ''find_by_url'' (exc_str exc)), db1)
      | (Inr document, db1) \<Rightarrow> (Inr document, db1))"

text \<open>The handler \<^verbatim>\<open>except DuplicateKeyError\<close> of \<open>upsert\<close>.\<close>

definition upsert_on_duplicate :: "(val \<Rightarrow> string) \<Rightarrow> string \<Rightarrow> mongo \<Rightarrow> (error + string) \<times> mongo" where
  "upsert_on_duplicate str_of url db =
     (case find_by_url url db of
        (Inl e, db1) \<Rightarrow> (Inl e, db1)
      | (Inr existing, db1) \<Rightarrow>
          (case existing of
             None \<Rightarrow> (Inl (DatabaseError ''upsert'' (''Duplicate key conflict for '' @ url)), db1)
           | Some d \<Rightarrow>
               if d = Map.empty
               then (Inl (DatabaseError ''upsert'' (''Duplicate key conflict for '' @ url)), db1)
               else (case d ''_id'' of
                       None \<Rightarrow> (Inl (KeyError (quoted ''_id'')), db1)
                     | Some oid \<Rightarrow> (Inr (str_of oid), db1))))"

definition upsert :: "(val \<Rightarrow> string) \<Rightarrow> nat \<Rightarrow> string \<Rightarrow> pydict \<Rightarrow> mongo \<Rightarrow> (error + string) \<times> mongo" where
  "upsert str_of now url data db =
     (case update_one \<lparr>q_url = url, q_status_nin = []\<rparr>
             (dict_set (dict_set (dict_set data ''url'' (Str url)) ''status'' (Str ''completed''))
                ''updated_at'' (Time now))
             [(''created_at'', Time now)] True db of
        (Inl (DuplicateKeyError m), db1) \<Rightarrow> upsert_on_duplicate str_of url db1
      | (Inl (PyMongoError m), db1) \<Rightarrow> (Inl (DatabaseError ''upsert'' m), db1)
      | (Inr result, db1) \<Rightarrow>
          (if (case upserted_id result of None \<Rightarrow> False | Some oid \<Rightarrow> truthy oid)
           then (Inr (str_of (the (upserted_id result))), db1)
           else (case find_one \<lparr>q_url = url, q_status_nin = []\<rparr> db1 of
                   (Inl (DuplicateKeyError m), db2) \<Rightarrow> upsert_on_duplicate str_of url db2
                 | (Inl (PyMongoError m), db2) \<Rightarrow> (Inl (DatabaseError ''upsert'' m), db2)
                 | (Inr None, db2) \<Rightarrow>
                     (Inl (TypeError (quoted ''NoneType'' @ '' object is not subscriptable'')), db2)
                 | (Inr (Some d), db2) \<Rightarrow>
                     (case d ''_id'' of
                        None \<Rightarrow> (Inl (KeyError (quoted ''_id'')), db2)
                      | Some oid \<Rightarrow> (Inr (str_of oid), db2)))))"

definition mark_pending :: "nat \<Rightarrow> string \<Rightarrow> mongo \<Rightarrow> (error + bool) \<times> mongo" where
  "mark_pending now url db =
     (case update_one \<lparr>q_url = url, q_status_nin = [''completed'', ''pending'']\<rparr>
             [(''url'', Str url), (''status'', Str ''pending''), (''updated_at'', Time now)]
             [(''created_at'', Time now)] True db of
        (Inl (DuplicateKeyError m), db1) \<Rightarrow> (Inr False, db1)
      | (Inl (PyMongoError m), db1) \<Rightarrow> (Inl (DatabaseError ''mark_pending'' m), db1)
      | (Inr result, db1) \<Rightarrow>
          (let was_created = (upserted_id result \<noteq> None);
               was_modified = (modified_count result > 0)
           in (Inr (was_created \<or> was_modified), db1)))"

definition mark_failed :: "nat \<Rightarrow> string \<Rightarrow> string \<Rightarrow> mongo \<Rightarrow> (error + unit) \<times> mongo" where
  "mark_failed now url reason db =
     (case update_one \<lparr>q_url = url, q_status_nin = []\<rparr>
             [(''status'', Str ''failed''), (''error'', Str reason), (''updated_at'', Time now)]
             [] False db of
        (Inl exc, db1) \<Rightarrow> (Inr (), db1)
      | (Inr result, db1) \<Rightarrow> (Inr (), db1))"

section \<open>Settings (\<^verbatim>\<open>core/config.py\<close>)\<close>

text \<open>The settings that the modelled code reads; \<open>default_settings\<close> holds the defaults
  of the class \<^verbatim>\<open>Settings\<close>.\<close>

record settings =
  http_timeout :: int
  kafka_topic :: string
  kafka_dlq_topic :: string
  kafka_max_retries :: int

definition default_settings :: settings where
  "default_settings =
     \<lparr>http_timeout = 30, kafka_topic = ''metadata-tasks'',
      kafka_dlq_topic = ''metadata-tasks-dlq'', kafka_max_retries = 3\<rparr>"

section \<open>The fetcher (\<^verbatim>\<open>infrastructure/crawler/http_client.py\<close>)\<close>

text \<open>
  What \<^verbatim>\<open>client.get(url)\<close> of the HTTP library does is the environment's choice: it
  returns the final response (status code, \<^verbatim>\<open>dict(response.headers)\<close>, the cookies as
  a dictionary, the body text) or raises. The constructors for the exceptions are
  disjoint classes of the library: a timeout (connect timeouts included), too many
  redirects, a connect error, a status error, any other \<^verbatim>\<open>httpx.HTTPError\<close>, and an
  exception outside that hierarchy, which \<open>fetch_url\<close> lets through.
\<close>

datatype http_result =
    Response int "(string \<times> string) list" "(string \<times> string) list" string
  | TimeoutException string
  | TooManyRedirects string
  | ConnectError string
  | HTTPStatusError int
  | HTTPError string
  | Raised error

record CollectedData =
  headers :: "(string \<times> string) list"
  cookies :: "(string \<times> string) list"
  page_source :: string
  status_code :: int

definition PERMANENT_STATUS_CODES :: "int list" where
  "PERMANENT_STATUS_CODES = [400, 401, 403, 404, 405, 406, 410, 414, 451]"

definition TRANSIENT_STATUS_CODES :: "int list" where
  "TRANSIENT_STATUS_CODES = [408, 429, 500, 502, 503, 504]"

definition str_int :: "int \<Rightarrow> string" where
  "str_int i = (if i < 0 then ''-'' @ str_nat (nat (- i)) else str_nat (nat i))"

text \<open>The dash of the two reason texts, U+2014, in UTF-8.\<close>

definition em_dash :: string where
  "em_dash = [CHR 0xE2, CHR 0x80, CHR 0x94]"

text \<open>\<^verbatim>\<open>needle in hay\<close> on strings.\<close>

fun contains :: "string \<Rightarrow> string \<Rightarrow> bool" where
  "contains [] needle = (needle = [])"
| "contains (c # cs) needle = (startswith (c # cs) needle \<or> contains cs needle)"

definition fetch_url :: "settings \<Rightarrow> (string \<Rightarrow> http_result) \<Rightarrow> string \<Rightarrow> error + CollectedData" where
  "fetch_url cfg net url =
     (case net url of
        Response status hdrs cks text \<Rightarrow>
          if status \<in> set PERMANENT_STATUS_CODES
          then Inl (PermanentCollectionError url
                 (''HTTP '' @ str_int status @ '' '' @ em_dash @ '' permanent failure''))
          else if status \<in> set TRANSIENT_STATUS_CODES
          then Inl (TransientCollectionError url
                 (''HTTP '' @ str_int status @ '' '' @ em_dash @ '' server error, retryable''))
          else Inr \<lparr>headers = hdrs, cookies = cks, page_source = text, status_code = status\<rparr>
      | TimeoutException exc \<Rightarrow>
          Inl (TransientCollectionError url
                 (''Request timed out after '' @ str_int (http_timeout cfg) @ ''s''))
      | TooManyRedirects exc \<Rightarrow> Inl (PermanentCollectionError url ''Too many redirects'')
      | ConnectError exc \<Rightarrow>
          (let error_str = lower exc
           in if contains error_str ''name or service not known'' \<or>
                 contains error_str ''nodename nor servname'' \<or>
                 contains error_str ''no address associated'' \<or>
                 contains error_str ''getaddrinfo failed''
              then Inl (PermanentCollectionError url
                     (''DNS resolution failed '' @ em_dash @ '' domain does not exist: '' @ exc))
              else Inl (TransientCollectionError url (''Connection failed: '' @ exc)))
      | HTTPStatusError status \<Rightarrow>
          if status \<in> set PERMANENT_STATUS_CODES
          then Inl (PermanentCollectionError url (''HTTP '' @ str_int status))
          else if status \<in> set TRANSIENT_STATUS_CODES
          then Inl (TransientCollectionError url (''HTTP '' @ str_int status))
          else Inl (CollectionError url (''HTTP '' @ str_int status))
      | HTTPError exc \<Rightarrow> Inl (TransientCollectionError url exc)
      | Raised e \<Rightarrow> Inl e)"

section \<open>The queue (\<^verbatim>\<open>infrastructure/messaging\<close>)\<close>

subsection \<open>Messages and the state of the service\<close>

text \<open>
  A message value is the JSON document that its bytes encode: a task object with the
  fields \<^verbatim>\<open>url\<close> (a string), \<^verbatim>\<open>retry_count\<close> (an integer) and \<^verbatim>\<open>error\<close> (a string),
  each present or not; bytes that are not UTF-8 JSON; or JSON that is no object. An
  object whose \<^verbatim>\<open>url\<close> or \<^verbatim>\<open>retry_count\<close> has another type is outside the model.

  The state of the service: the store; whether the module-level \<^verbatim>\<open>_producer\<close> is set;
  what the next calls of \<^verbatim>\<open>produce\<close> do (\<open>None\<close>, also when the list is used up: the
  message is accepted; \<open>Some e\<close>: the call raises \<open>e\<close>); every message accepted so far
  with its topic, oldest first; the consumer's position in the main topic, which is
  modelled as one sequence read in order; and the offsets it has committed.
\<close>

datatype payload =
    Undecodable
  | NotAnObject
  | Task "string option" "int option" "string option"

record world =
  database :: mongo
  producer_initialized :: bool
  produce_faults :: "error option list"
  published :: "(string \<times> payload) list"
  position :: nat
  commits :: "nat list"

subsection \<open>The producer (\<^verbatim>\<open>producer.py\<close>)\<close>

definition init_producer :: "world \<Rightarrow> world" where
  "init_producer w = w\<lparr>producer_initialized := True\<rparr>"

definition close_producer :: "world \<Rightarrow> world" where
  "close_producer w = (if producer_initialized w then w\<lparr>producer_initialized := False\<rparr> else w)"

text \<open>\<^verbatim>\<open>_producer.produce(topic, value, callback)\<close> followed by \<^verbatim>\<open>_producer.poll(0)\<close>.\<close>

definition produce :: "string \<Rightarrow> payload \<Rightarrow> world \<Rightarrow> (error + unit) \<times> world" where
  "produce topic v w =
     (case produce_faults w of
        Some e # fs \<Rightarrow> (Inl e, w\<lparr>produce_faults := fs\<rparr>)
      | _ \<Rightarrow> (Inr (), w\<lparr>produce_faults := tl (produce_faults w),
                          published := published w @ [(topic, v)]\<rparr>))"

definition enqueue :: "settings \<Rightarrow> string \<Rightarrow> world \<Rightarrow> (error + unit) \<times> world" where
  "enqueue cfg url w =
     (if \<not> producer_initialized w
      then (Inl (RuntimeError (''Kafka producer is not initialized. '' @
                   ''Ensure init_producer() was called during startup.'')), w)
      else produce (kafka_topic cfg) (Task (Some url) None None) w)"

definition publish_with_retry :: "settings \<Rightarrow> string \<Rightarrow> int \<Rightarrow> world \<Rightarrow> (error + unit) \<times> world" where
  "publish_with_retry cfg url retry_count w =
     (if \<not> producer_initialized w
      then (Inl (RuntimeError ''Kafka producer is not initialized.''), w)
      else produce (kafka_topic cfg) (Task (Some url) (Some retry_count) None) w)"

definition publish_to_dlq :: "settings \<Rightarrow> string \<Rightarrow> int \<Rightarrow> string \<Rightarrow> world \<Rightarrow> (error + unit) \<times> world" where
  "publish_to_dlq cfg url retry_count err w =
     (if \<not> producer_initialized w
      then (Inl (RuntimeError ''Kafka producer is not initialized.''), w)
      else produce (kafka_dlq_topic cfg) (Task (Some url) (Some retry_count) (Some err)) w)"

subsection \<open>The worker (\<^verbatim>\<open>worker/worker.py\<close>)\<close>

definition process_url ::
  "(val \<Rightarrow> string) \<Rightarrow> settings \<Rightarrow> (string \<Rightarrow> http_result) \<Rightarrow> nat \<Rightarrow> string \<Rightarrow> world \<Rightarrow> (error + unit) \<times> world" where
  "process_url str_of cfg net now url w =
     (case fetch_url cfg net url of
        Inl e \<Rightarrow> (Inl e, w)
      | Inr collected \<Rightarrow>
          (let data = [(''headers'', Dict (map (\<lambda>(k, v). (k, Str v)) (headers collected))),
                       (''cookies'', Dict (map (\<lambda>(k, v). (k, Str v)) (cookies collected))),
                       (''page_source'', Str (page_source collected)),
                       (''status_code'', Num (status_code collected))]
           in case upsert str_of now url data (database w) of
                (Inl e, db1) \<Rightarrow> (Inl e, w\<lparr>database := db1\<rparr>)
              | (Inr doc_id, db1) \<Rightarrow> (Inr (), w\<lparr>database := db1\<rparr>)))"

subsection \<open>The consumer (\<^verbatim>\<open>consumer.py\<close>)\<close>

text \<open>\<^verbatim>\<open>consumer.poll(1.0)\<close>: the next message of the main topic, if there is one. The
  error events of the consumer, on which the loop only logs and continues, are left
  out. \<^verbatim>\<open>consumer.commit\<close> records the offset and does not fail.\<close>

datatype polled = NoMessage | Message nat payload

definition main_log :: "settings \<Rightarrow> world \<Rightarrow> payload list" where
  "main_log cfg w = map snd (filter (\<lambda>m. fst m = kafka_topic cfg) (published w))"

definition poll :: "settings \<Rightarrow> world \<Rightarrow> polled \<times> world" where
  "poll cfg w =
     (if position w < length (main_log cfg w)
      then (Message (position w) (main_log cfg w ! position w), w\<lparr>position := Suc (position w)\<rparr>)
      else (NoMessage, w))"

definition commit :: "nat \<Rightarrow> world \<Rightarrow> world" where
  "commit offset w = w\<lparr>commits := commits w @ [offset]\<rparr>"

definition mark_failed_in_db :: "nat \<Rightarrow> string \<Rightarrow> string \<Rightarrow> world \<Rightarrow> world" where
  "mark_failed_in_db now url reason w =
     (case mark_failed now url reason (database w) of (r, db1) \<Rightarrow> w\<lparr>database := db1\<rparr>)"

text \<open>The two places that publish to the dead-letter topic and mark the record: an
  exception of the publish is logged, and the record is then not marked.\<close>

definition to_dlq :: "settings \<Rightarrow> nat \<Rightarrow> string \<Rightarrow> int \<Rightarrow> string \<Rightarrow> world \<Rightarrow> world" where
  "to_dlq cfg now url retry_count error_msg w =
     (case publish_to_dlq cfg url retry_count error_msg w of
        (Inl dlq_exc, w1) \<Rightarrow> w1
      | (Inr u, w1) \<Rightarrow> mark_failed_in_db now url error_msg w1)"

text \<open>
  The body of the loop for a polled message. The result is the exception that leaves
  the loop, if any, and the state. \<open>now\<close> is the time of this iteration.
\<close>

definition consume_message ::
  "(val \<Rightarrow> string) \<Rightarrow> settings \<Rightarrow> (string \<Rightarrow> http_result) \<Rightarrow> nat \<Rightarrow> nat \<Rightarrow> payload \<Rightarrow> world \<Rightarrow>
     error option \<times> world" where
  "consume_message str_of cfg net now offset v w =
     (case v of
        Undecodable \<Rightarrow> (None, w)
      | NotAnObject \<Rightarrow> (Some (AttributeError ''object has no attribute get''), w)
      | Task url_field retry_field error_field \<Rightarrow>
          (case url_field of
             None \<Rightarrow> (None, w)
           | Some url \<Rightarrow>
               if url = [] then (None, w)
               else
                 (let retry_count = (case retry_field of None \<Rightarrow> 0 | Some n \<Rightarrow> n)
                  in case process_url str_of cfg net now url w of
                       (Inr u, w1) \<Rightarrow> (None, commit offset w1)
                     | (Inl (PermanentCollectionError eu er), w1) \<Rightarrow>
                         (None, commit offset
                            (to_dlq cfg now url retry_count
                               (message (PermanentCollectionError eu er)) w1))
                     | (Inl exc, w1) \<Rightarrow>
                         (let error_msg = message exc;
                              retry_count' = retry_count + 1
                          in if retry_count' \<ge> kafka_max_retries cfg
                             then (None, commit offset
                                    (to_dlq cfg now url retry_count' error_msg w1))
                             else (None, commit offset
                                    (snd (publish_with_retry cfg url retry_count' w1)))))))"

text \<open>
  \<^verbatim>\<open>_consume_loop\<close> runs until the shutdown event is set. The model takes the times of
  the iterations that happen before that: one poll per element.
\<close>

fun consume_loop ::
  "(val \<Rightarrow> string) \<Rightarrow> settings \<Rightarrow> (string \<Rightarrow> http_result) \<Rightarrow> nat list \<Rightarrow> world \<Rightarrow> error option \<times> world" where
  "consume_loop str_of cfg net [] w = (None, w)"
| "consume_loop str_of cfg net (now # later) w =
     (case poll cfg w of
        (NoMessage, w1) \<Rightarrow> consume_loop str_of cfg net later w1
      | (Message offset v, w1) \<Rightarrow>
          (case consume_message str_of cfg net now offset v w1 of
             (Some e, w2) \<Rightarrow> (Some e, w2)
           | (None, w2) \<Rightarrow> consume_loop str_of cfg net later w2))"

section \<open>The metadata service (\<^verbatim>\<open>domain\<close>)\<close>

text \<open>
  \<^verbatim>\<open>MetadataRecord.from_mongo\<close> reads the fields of the document with their defaults
  and calls the class with them as keyword arguments. The class is a pydantic model;
  what its constructor makes of the arguments (a record, or a validation error) is the
  parameter \<open>cls\<close>.
\<close>

definition dict_get :: "document \<Rightarrow> string \<Rightarrow> val \<Rightarrow> val" where
  "dict_get d k dflt = (case d k of None \<Rightarrow> dflt | Some v \<Rightarrow> v)"

definition from_mongo :: "(val \<Rightarrow> string) \<Rightarrow> (pydict \<Rightarrow> error + 'r) \<Rightarrow> document option \<Rightarrow> error + 'r" where
  "from_mongo str_of cls doc =
     (case doc of
        None \<Rightarrow> Inl (ValueError ''Cannot create MetadataRecord from None'')
      | Some d \<Rightarrow>
          cls [(''id'', Str (str_of (dict_get d ''_id'' (Str [])))),
               (''url'', dict_get d ''url'' (Str [])),
               (''headers'', dict_get d ''headers'' (Dict [])),
               (''cookies'', dict_get d ''cookies'' (Dict [])),
               (''page_source'', dict_get d ''page_source'' (Str [])),
               (''status_code'', dict_get d ''status_code'' (Num 0)),
               (''status'', dict_get d ''status'' (Str ''pending'')),
               (''error'', dict_get d ''error'' PyNone),
               (''created_at'', dict_get d ''created_at'' PyNone),
               (''updated_at'', dict_get d ''updated_at'' PyNone)])"

text \<open>\<^verbatim>\<open>doc and doc.get("status") == "completed"\<close>.\<close>

definition is_completed :: "document option \<Rightarrow> bool" where
  "is_completed doc =
     (case doc of
        None \<Rightarrow> False
      | Some d \<Rightarrow> d \<noteq> Map.empty \<and> d ''status'' = Some (Str ''completed''))"

definition get_metadata ::
  "(string \<Rightarrow> string option) \<Rightarrow> (val \<Rightarrow> string) \<Rightarrow> (pydict \<Rightarrow> error + 'r) \<Rightarrow> settings \<Rightarrow>
     nat \<Rightarrow> string \<Rightarrow> world \<Rightarrow> (error + 'r option \<times> bool) \<times> world" where
  "get_metadata check_host str_of cls cfg now raw_url w =
     (case normalize_url check_host raw_url of
        Inl e \<Rightarrow> (Inl e, w)
      | Inr url \<Rightarrow>
          (case find_by_url url (database w) of
             (Inl e, db1) \<Rightarrow> (Inl e, w\<lparr>database := db1\<rparr>)
           | (Inr doc, db1) \<Rightarrow>
               if is_completed doc
               then (case from_mongo str_of cls doc of
                       Inl e \<Rightarrow> (Inl e, w\<lparr>database := db1\<rparr>)
                     | Inr r \<Rightarrow> (Inr (Some r, True), w\<lparr>database := db1\<rparr>))
               else (case mark_pending now url db1 of
                       (Inl e, db2) \<Rightarrow> (Inl e, w\<lparr>database := db2\<rparr>)
                     | (Inr was_marked, db2) \<Rightarrow>
                         if was_marked
                         then (Inr (None, False), snd (enqueue cfg url (w\<lparr>database := db2\<rparr>)))
                         else (Inr (None, False), w\<lparr>database := db2\<rparr>))))"

section \<open>Concrete states for the examples\<close>

text \<open>
  A URL in canonical form, a rendering of identifiers for \<open>str_of\<close>, a document with a
  given status, fields as the worker stores them, stores without a document and with that
  one, a state of the service
  around a store, that state with one task for the URL on the main topic, and a target
  that answers 503 to every request.
\<close>

definition example_url :: string where
  "example_url = ''https://example.com/''"

fun oid_str :: "val \<Rightarrow> string" where
  "oid_str (ObjectId n) = str_nat n"
| "oid_str (Str s) = s"
| "oid_str v = []"

definition example_doc :: "string \<Rightarrow> document" where
  "example_doc st =
     [''_id'' \<mapsto> ObjectId 1, ''url'' \<mapsto> Str example_url, ''status'' \<mapsto> Str st,
      ''created_at'' \<mapsto> Time 1, ''updated_at'' \<mapsto> Time 1]"


definition empty_store :: mongo where
  "empty_store = \<lparr>docs = Map.empty, next_oid = 1, faults = []\<rparr>"

definition store_with :: "string \<Rightarrow> mongo" where
  "store_with st = \<lparr>docs = [example_url \<mapsto> example_doc st], next_oid = 2, faults = []\<rparr>"

definition example_world :: "mongo \<Rightarrow> world" where
  "example_world s =
     \<lparr>database = s, producer_initialized = True, produce_faults = [], published = [],
      position = 0, commits = []\<rparr>"

definition queued_world :: world where
  "queued_world =
     (example_world (store_with ''pending''))
       \<lparr>published := [(''metadata-tasks'', Task (Some example_url) None None)]\<rparr>"

definition always_503 :: "string \<Rightarrow> http_result" where
  "always_503 u = Response 503 [] [] []"

text \<open>A host check that accepts every bracketed host.\<close>

definition accept_all :: "string \<Rightarrow> string option" where
  "accept_all h = None"

section \<open>Evaluation of the canonicalizer\<close>

lemma str_nat_acc_lt: "n < 10 \<Longrightarrow> str_nat_acc n acc = digit_char n # acc"
  by (simp add: str_nat_acc.simps)

lemma str_nat_acc_ge:
  "\<not> n < 10 \<Longrightarrow> str_nat_acc n acc = str_nat_acc (n div 10) (digit_char (n mod 10) # acc)"
  by (subst str_nat_acc.simps) simp

lemmas url_defs = normalize_url_def startswith_def endswith_def lower_def lower_char_def
  urlparse_def urlsplit_def split_scheme_def splitnetloc_def netloc_delim_def splitparams_def
  uses_params_def hostinfo_def hostname_def port_def isdigit_def isdigit_char_def
  int_of_digits_def digit_char_def str_nat_def rstrip_chr_def isalpha_char_def scheme_char_def
  hexval_def replace_chr_def parse_field_def parse_qsl_def parse_qs_def always_safe_def
  hexdigit_def quote_char_def quote_def quote_plus_def urlencode_def sorted_by_name_def
  bracketed_host_def uses_netloc_def urlunsplit_def urlunparse_def chr_def Let_def str_nat_acc_lt str_nat_acc_ge

lemma canon_no_scheme: "normalize_url check_host ''google.com'' = Inr ''https://google.com/''"
  by (simp add: url_defs)

lemma canon_lowercase: "normalize_url check_host ''HTTP://GOOGLE.COM/Path'' = Inr ''http://google.com/Path''"
  by (simp add: url_defs)

lemma canon_port_80: "normalize_url check_host ''http://google.com:80/path'' = Inr ''http://google.com/path''"
  by (simp add: url_defs)

lemma canon_port_443:
  "normalize_url check_host ''https://google.com:443/path'' = Inr ''https://google.com/path''"
  by (simp add: url_defs)

lemma canon_port_8080:
  "normalize_url check_host ''http://google.com:8080/path'' = Inr ''http://google.com:8080/path''"
  by (simp add: url_defs)

lemma canon_fragment:
  "normalize_url check_host ''https://google.com/page#section'' = Inr ''https://google.com/page''"
  by (simp add: url_defs)

lemma canon_query:
  "normalize_url check_host ''https://google.com/search?z=1&a=2&m=3'' =
     Inr ''https://google.com/search?a=2&m=3&z=1''"
  by (simp add: url_defs)

lemma canon_trailing_slash:
  "normalize_url check_host ''https://google.com/path/'' = Inr ''https://google.com/path''"
  by (simp add: url_defs)

lemma canon_root: "normalize_url check_host ''https://google.com'' = Inr ''https://google.com/''"
  by (simp add: url_defs)

lemma canon_example: "normalize_url check_host ''Example.com'' = Inr example_url"
  by (simp add: url_defs example_url_def)

text \<open>
  C7. The canonicalizer returns the listed output on each of the nine listed inputs:
  a missing scheme becomes \<^verbatim>\<open>https\<close>, scheme and host are lowercased and the path is
  not, the default ports 80 and 443 go and 8080 stays, the fragment goes, the query is
  sorted by name, a trailing slash goes, and an empty path becomes \<^verbatim>\<open>/\<close>.
\<close>

theorem normalize_url_cases:
  "normalize_url check_host ''google.com'' = Inr ''https://google.com/'' \<and>
   normalize_url check_host ''HTTP://GOOGLE.COM/Path'' = Inr ''http://google.com/Path'' \<and>
   normalize_url check_host ''http://google.com:80/path'' = Inr ''http://google.com/path'' \<and>
   normalize_url check_host ''https://google.com:443/path'' = Inr ''https://google.com/path'' \<and>
   normalize_url check_host ''http://google.com:8080/path'' = Inr ''http://google.com:8080/path'' \<and>
   normalize_url check_host ''https://google.com/page#section'' = Inr ''https://google.com/page'' \<and>
   normalize_url check_host ''https://google.com/search?z=1&a=2&m=3'' =
     Inr ''https://google.com/search?a=2&m=3&z=1'' \<and>
   normalize_url check_host ''https://google.com/path/'' = Inr ''https://google.com/path'' \<and>
   normalize_url check_host ''https://google.com'' = Inr ''https://google.com/''"
  by (simp only: canon_no_scheme canon_lowercase canon_port_80 canon_port_443 canon_port_8080
      canon_fragment canon_query canon_trailing_slash canon_root simp_thms)

lemma canon_params_slash: "normalize_url check_host ''https://a.com/x;y/'' = Inr ''https://a.com/x;y''"
  by (simp add: url_defs)

lemma canon_params: "normalize_url check_host ''https://a.com/x;y'' = Inr ''https://a.com/x''"
  by (simp add: url_defs)

lemma canon_ipv6: "normalize_url (check_host(''::1'' := None)) ''http://[::1]/'' = Inr ''http://::1/''"
  by (simp add: url_defs)

lemma canon_ipv6_again:
  "normalize_url check_host ''http://::1/'' =
     Inl (ValueError (''Port could not be cast to integer value as '' @ quoted '':1''))"
  by (simp add: url_defs)

text \<open>
  C6. The canonicalizer is not idempotent. A path whose last segment has a \<open>;\<close> and a
  trailing slash loses the slash in the first pass and everything from the \<open>;\<close> in the
  second (\<^verbatim>\<open>urlparse\<close> splits the parameters off the last segment and the
  canonicalizer rebuilds the URL without them). A bracketed IPv6 host loses its
  brackets in the first pass (for every host check that accepts the address), and the
  second pass raises \<^verbatim>\<open>ValueError\<close> on the result.
\<close>

theorem normalize_url_not_idempotent:
  "normalize_url check_host ''https://a.com/x;y/'' = Inr ''https://a.com/x;y'' \<and>
   normalize_url check_host ''https://a.com/x;y'' = Inr ''https://a.com/x'' \<and>
   normalize_url (check_host(''::1'' := None)) ''http://[::1]/'' = Inr ''http://::1/'' \<and>
   normalize_url check_host ''http://::1/'' =
     Inl (ValueError (''Port could not be cast to integer value as '' @ quoted '':1''))"
  by (simp only: canon_params_slash canon_params canon_ipv6 canon_ipv6_again simp_thms)

section \<open>The document store\<close>

lemmas store_defs = find_by_url_def find_one_def update_one_def next_fault_def fault_now_def
  called_def matches_def upsert_def upsert_on_duplicate_def mark_pending_def mark_failed_def
  field_path_def conflict_def set_field_def get_field_def Let_def

lemmas example_defs = example_url_def example_doc_def empty_store_def store_with_def
  example_world_def queued_world_def always_503_def default_settings_def

lemma docs_called [simp]: "docs (called db) = docs db"
  by (simp add: called_def)

lemma next_oid_called [simp]: "next_oid (called db) = next_oid db"
  by (simp add: called_def)

lemma called_idle: "faults db = [] \<Longrightarrow> called db = db"
  by (simp add: called_def)

lemma map_of_dict_set [simp]: "map_of (dict_set al k v) = (map_of al)(k \<mapsto> v)"
  by (induction al k v rule: dict_set.induct) (auto simp: fun_eq_iff)

lemma docs_find_one [simp]: "docs (snd (find_one q db)) = docs db"
  by (simp add: find_one_def next_fault_def split: option.splits)

lemma docs_find_by_url [simp]: "docs (snd (find_by_url url db)) = docs db"
proof -
  have "snd (find_by_url url db) = snd (find_one \<lparr>q_url = url, q_status_nin = []\<rparr> db)"
    by (simp add: find_by_url_def split: prod.splits sum.splits)
  then show ?thesis by simp
qed

lemma docs_upsert_on_duplicate [simp]: "docs (snd (upsert_on_duplicate str_of url db)) = docs db"
proof -
  have "snd (upsert_on_duplicate str_of url db) = snd (find_by_url url db)"
    by (simp add: upsert_on_duplicate_def split: prod.splits sum.splits option.splits)
  then show ?thesis by simp
qed

subsection \<open>Field paths\<close>

text \<open>A name without a dot is a path of one name, and the update operators treat it as
  the field of that name.\<close>

lemma split_chr_not_Nil: "split_chr c s \<noteq> []"
  by (induction s) (auto split: list.splits)

lemma split_chr_none: "c \<notin> set s \<Longrightarrow> split_chr c s = [s]"
  by (induction s) auto

lemma field_path_not_Nil: "field_path p \<noteq> []"
  by (simp add: field_path_def split_chr_not_Nil)

lemma field_path_name: "field_name k \<Longrightarrow> field_path k = [k]"
  by (simp add: field_name_def field_path_def split_chr_none)

lemma set_field_name: "set_field [k] v d = Some (d(k \<mapsto> v))"
  by (simp add: set_field_def split: option.splits)

lemma get_field_name: "get_field [k] d = d k"
  by (simp add: get_field_def split: option.splits)

lemma is_prefix_name: "is_prefix [k] q = (q \<noteq> [] \<and> hd q = k)"
  by (cases q) auto

lemma conflicting_names: "conflicting (map (\<lambda>k. [k]) ks) = (\<not> distinct ks)"
  by (induction ks) (auto simp add: conflict_def list_ex_iff)

lemma conflicting_append: "conflicting ps \<Longrightarrow> conflicting (ps @ qs)"
  by (induction ps) (auto simp add: list_ex_iff)


lemma set_dict_set_other:
  "k' \<noteq> k \<Longrightarrow> ((k', v') \<in> set (dict_set d k v)) = ((k', v') \<in> set d)"
  by (induction d k v rule: dict_set.induct) auto

lemma set_dict_set_same: "(k, v) \<in> set (dict_set d k v)"
  by (induction d k v rule: dict_set.induct) auto

lemma apply_set_names:
  assumes "list_all field_name (map fst s)" and "distinct (map fst s)"
  shows "apply_set s d = Some (d ++ map_of s)"
  using assms
proof (induction s arbitrary: d)
  case Nil
  show ?case by simp
next
  case (Cons a s)
  obtain k v where a: "a = (k, v)" by (cases a)
  have k: "map_of s k = None"
    using Cons.prems(2) a by (simp add: map_of_eq_None_iff)
  have "apply_set (a # s) d = apply_set s (d(k \<mapsto> v))"
    using Cons.prems(1) a by (simp add: field_path_name set_field_name)
  also have "\<dots> = Some (d(k \<mapsto> v) ++ map_of s)"
    using Cons by simp
  also have "d(k \<mapsto> v) ++ map_of s = d ++ map_of (a # s)"
    using k a by (intro ext) (simp add: map_add_def split: option.splits)
  finally show ?case .
qed

text \<open>A path changes the field of its first name and no other.\<close>

lemma set_field_other:
  assumes "set_field ks v d = Some d'" and "hd ks \<noteq> k"
  shows "d' k = d k"
  using assms by (auto simp add: set_field_def split: list.splits option.splits)

lemma apply_set_other:
  assumes "apply_set s d = Some d'" and "\<forall>(p, v) \<in> set s. hd (field_path p) \<noteq> k"
  shows "d' k = d k"
  using assms
proof (induction s arbitrary: d)
  case Nil
  then show ?case by simp
next
  case (Cons a s)
  obtain p v where a: "a = (p, v)" by (cases a)
  obtain d1 where d1: "set_field (field_path p) v d = Some d1" "apply_set s d1 = Some d'"
    using Cons.prems(1) a by (auto split: option.splits)
  have "d' k = d1 k"
    using Cons.IH [OF d1(2)] Cons.prems(2) by simp
  moreover have "d1 k = d k"
    using set_field_other [OF d1(1)] Cons.prems(2) a by simp
  ultimately show ?case by simp
qed

text \<open>Among paths that do not conflict, the one that names a field decides its value.\<close>

lemma apply_set_sets:
  assumes "apply_set s d = Some d'"
    and "\<not> conflicting (map (\<lambda>(p, _). field_path p) s)"
    and "(p0, v0) \<in> set s" and "field_path p0 = [k]"
  shows "d' k = Some v0"
  using assms(1,2,3)
proof (induction s arbitrary: d)
  case Nil
  then show ?case by simp
next
  case (Cons a s)
  obtain p v where a: "a = (p, v)" by (cases a)
  obtain d1 where d1: "set_field (field_path p) v d = Some d1" "apply_set s d1 = Some d'"
    using Cons.prems(1) a by (auto split: option.splits)
  have nc: "\<not> conflicting (map (\<lambda>(p, _). field_path p) s)"
    and ne: "\<forall>(p', v') \<in> set s. \<not> conflict (field_path p) (field_path p')"
    using Cons.prems(2) a by (auto simp add: list_ex_iff)
  show ?case
  proof (cases "(p0, v0) \<in> set s")
    case True
    then show ?thesis using Cons.IH [OF d1(2) nc] by simp
  next
    case False
    then have e: "p = p0" "v = v0" using Cons.prems(3) a by auto
    have "d1 = d(k \<mapsto> v0)"
      using d1(1) e assms(4) by (simp add: set_field_name)
    moreover have "\<forall>(p', v') \<in> set s. hd (field_path p') \<noteq> k"
      using ne e assms(4) by (auto simp add: conflict_def is_prefix_name field_path_not_Nil)
    ultimately show ?thesis using apply_set_other [OF d1(2)] by simp
  qed
qed

text \<open>
  \<open>update_one\<close> on operators that name fields, each once: no path is refused, and
  \<^verbatim>\<open>$set\<close> overrides the fields it names.
\<close>

lemma update_one_fields:
  assumes "list_all field_name (map fst (s @ i))" and "distinct (map fst (s @ i))"
  shows "update_one q s i u db =
     (case next_fault db of
        (Some e, db1) \<Rightarrow> (Inl e, db1)
      | (None, db1) \<Rightarrow>
            (case docs db1 (q_url q) of
               Some d \<Rightarrow>
                 if matches q d
                 then (if map_of s ''_id'' \<noteq> None \<and> map_of s ''_id'' \<noteq> d ''_id''
                       then (Inl (PyMongoError ''Performing an update on the path _id would modify the immutable field _id''), db1)
                       else (Inr \<lparr>matched_count = 1,
                                  modified_count = (if list_all (\<lambda>(k, v). map_of s k = d k) s then 0 else 1),
                                  upserted_id = None\<rparr>,
                             db1\<lparr>docs := (docs db1)(q_url q \<mapsto> d ++ map_of s)\<rparr>))
                 else if u
                 then (Inl (DuplicateKeyError ''E11000 duplicate key error''), db1)
                 else (Inr \<lparr>matched_count = 0, modified_count = 0, upserted_id = None\<rparr>, db1)
             | None \<Rightarrow>
                 if u
                 then (let d0 = [''url'' \<mapsto> Str (q_url q)] ++ map_of i ++ map_of s;
                           oid = (case d0 ''_id'' of None \<Rightarrow> ObjectId (next_oid db1) | Some v \<Rightarrow> v)
                       in (Inr \<lparr>matched_count = 0, modified_count = 0, upserted_id = Some oid\<rparr>,
                           db1\<lparr>docs := (docs db1)(q_url q \<mapsto> d0(''_id'' \<mapsto> oid)),
                               next_oid := Suc (next_oid db1)\<rparr>))
                 else (Inr \<lparr>matched_count = 0, modified_count = 0, upserted_id = None\<rparr>, db1)))"
proof -
  have n: "field_name p" if "(p, v) \<in> set (s @ i)" for p v
    using assms(1) that by (force simp add: list_all_iff)
  have p: "field_path p = [p]" "p \<noteq> []" "hd p \<noteq> CHR ''$''" if "(p, v) \<in> set (s @ i)" for p v
    using n [OF that] by (simp_all add: field_path_name field_name_def)
  have "[] \<notin> set (field_path p)" if "(p, v) \<in> set (s @ i)" for p v
    using p [OF that] by simp
  then have c1: "list_ex (\<lambda>(p, _). [] \<in> set (field_path p)) (s @ i) = False"
    unfolding list_ex_iff by fastforce
  have "\<not> list_ex (\<lambda>c. hd c = CHR ''$'') (field_path p)" if "(p, v) \<in> set (s @ i)" for p v
    using p [OF that] by simp
  then have c2: "list_ex (\<lambda>(p, _). list_ex (\<lambda>c. hd c = CHR ''$'') (field_path p)) (s @ i) = False"
    unfolding list_ex_iff by fastforce
  have "(case x of (p, _) \<Rightarrow> field_path p) = [fst x]" if "x \<in> set (s @ i)" for x
    using p(1) [of "fst x" "snd x"] that by (simp add: case_prod_beta)
  then have "map (\<lambda>(p, _). field_path p) (s @ i) = map (\<lambda>k. [k]) (map fst (s @ i))"
    by (simp only: map_map o_def cong: map_cong)
  then have c3: "conflicting (map (\<lambda>(p, _). field_path p) (s @ i)) = False"
    using assms(2) by (simp only: conflicting_names) simp
  have a1: "apply_set s d = Some (d ++ map_of s)" for d
    using assms by (intro apply_set_names) simp_all
  have a2: "apply_set (s @ i) d = Some (d ++ map_of i ++ map_of s)" for d
    using apply_set_names [OF assms, of d] by simp
  have m: "list_all (\<lambda>(p, v). get_field (field_path p) d = Some v) s =
           list_all (\<lambda>(k, v). map_of s k = d k) s" for d
  proof -
    have "get_field (field_path p) d = Some v \<longleftrightarrow> map_of s p = d p" if "(p, v) \<in> set s" for p v
    proof -
      have "map_of s p = Some v" using assms(2) that by simp
      moreover have "field_path p = [p]" using n [of p v] that by (simp add: field_path_name)
      ultimately show ?thesis by (auto simp add: get_field_name)
    qed
    then show ?thesis by (auto simp add: list_all_iff)
  qed
  have id: "((d ++ map_of s) ''_id'' \<noteq> d ''_id'') =
            (map_of s ''_id'' \<noteq> None \<and> map_of s ''_id'' \<noteq> d ''_id'')" for d
    by (auto simp add: map_add_def split: option.splits)
  show ?thesis
    unfolding update_one_def c1 c2 c3 a1 a2 m
    by (simp add: id Let_def split: prod.splits option.splits)
qed

text \<open>An update leaves the document of the filter's URL alone or applies \<^verbatim>\<open>$set\<close> to it,
  and then no two of its paths conflict.\<close>

lemma update_one_matched_docs:
  assumes "docs db (q_url q) = Some d"
  shows "docs (snd (update_one q s i u db)) (q_url q) = Some d \<or>
         (\<exists>d'. apply_set s d = Some d' \<and> \<not> conflicting (map (\<lambda>(p, _). field_path p) s) \<and>
               docs (snd (update_one q s i u db)) (q_url q) = Some d')"
proof (cases "conflicting (map (\<lambda>(p, _). field_path p) (s @ i))")
  case True
  then show ?thesis using assms
    by (simp add: update_one_def next_fault_def split: option.splits)
next
  case False
  then have "\<not> conflicting (map (\<lambda>(p, _). field_path p) s)"
    using conflicting_append [of "map (\<lambda>(p, _). field_path p) s" "map (\<lambda>(p, _). field_path p) i"]
    by auto
  then show ?thesis using assms False
    by (simp add: update_one_def next_fault_def split: option.splits)
qed

text \<open>The only call of \<open>upsert\<close> that writes is its \<open>update_one\<close>.\<close>

lemma upsert_docs:
  "docs (snd (upsert str_of now url data db)) =
   docs (snd (update_one \<lparr>q_url = url, q_status_nin = []\<rparr>
             (dict_set (dict_set (dict_set data ''url'' (Str url)) ''status'' (Str ''completed''))
                ''updated_at'' (Time now))
             [(''created_at'', Time now)] True db))"
proof -
  obtain x db1 where r: "update_one \<lparr>q_url = url, q_status_nin = []\<rparr>
             (dict_set (dict_set (dict_set data ''url'' (Str url)) ''status'' (Str ''completed''))
                ''updated_at'' (Time now))
             [(''created_at'', Time now)] True db = (x, db1)"
    by force
  obtain y db2 where f: "find_one \<lparr>q_url = url, q_status_nin = []\<rparr> db1 = (y, db2)"
    by force
  have d2: "docs db2 = docs db1"
    using docs_find_one [of "\<lparr>q_url = url, q_status_nin = []\<rparr>" db1] by (simp add: f)
  have "docs (snd (upsert str_of now url data db)) = docs db1"
    using d2 by (simp add: upsert_def r f split: sum.splits pymongo_error.splits option.splits)
  then show ?thesis by (simp add: r)
qed

lemma upsert_keeps_completed:
  assumes "docs db url = Some d" and "d ''status'' = Some (Str ''completed'')"
  shows "\<exists>d'. docs (snd (upsert str_of now url data db)) url = Some d' \<and>
              d' ''status'' = Some (Str ''completed'')"
proof -
  let ?s = "dict_set (dict_set (dict_set data ''url'' (Str url)) ''status'' (Str ''completed''))
                ''updated_at'' (Time now)"
  have m: "(''status'', Str ''completed'') \<in> set ?s"
    by (simp add: set_dict_set_other set_dict_set_same)
  have p: "field_path ''status'' = [''status'']"
    by (simp add: field_path_def)
  have "docs (snd (upsert str_of now url data db)) url = Some d \<or>
      (\<exists>d'. apply_set ?s d = Some d' \<and> \<not> conflicting (map (\<lambda>(p, _). field_path p) ?s) \<and>
            docs (snd (upsert str_of now url data db)) url = Some d')"
    using update_one_matched_docs [of db "\<lparr>q_url = url, q_status_nin = []\<rparr>" d ?s] assms(1)
    by (simp add: upsert_docs)
  then show ?thesis
  proof
    assume "docs (snd (upsert str_of now url data db)) url = Some d"
    then show ?thesis using assms(2) by simp
  next
    assume "\<exists>d'. apply_set ?s d = Some d' \<and> \<not> conflicting (map (\<lambda>(p, _). field_path p) ?s) \<and>
            docs (snd (upsert str_of now url data db)) url = Some d'"
    then obtain d' where d': "apply_set ?s d = Some d'"
        "\<not> conflicting (map (\<lambda>(p, _). field_path p) ?s)"
        "docs (snd (upsert str_of now url data db)) url = Some d'"
      by blast
    have "d' ''status'' = Some (Str ''completed'')"
      by (rule apply_set_sets [OF d'(1,2) m p])
    then show ?thesis using d'(3) by simp
  qed
qed

lemma matches_any_status [simp]: "matches \<lparr>q_url = url, q_status_nin = []\<rparr> d"
  by (simp add: matches_def split: option.splits)

lemma completed_not_selected:
  assumes "d ''status'' = Some (Str ''completed'') \<or> d ''status'' = Some (Str ''pending'')"
  shows "\<not> matches \<lparr>q_url = url, q_status_nin = [''completed'', ''pending'']\<rparr> d"
  using assms by (auto simp add: matches_def)

lemma mark_pending_completed_docs:
  assumes "docs db url = Some d" and "d ''status'' = Some (Str ''completed'')"
  shows "docs (snd (mark_pending now url db)) = docs db"
  using assms(1) completed_not_selected [of d url] assms(2)
  by (simp add: mark_pending_def update_one_fields field_name_def next_fault_def
      split: option.splits pymongo_error.splits)

lemma mark_pending_completed_result:
  assumes "docs db url = Some d" and "d ''status'' = Some (Str ''completed'')"
  shows "fst (mark_pending now url db) =
     (case fault_now db of
        Some (PyMongoError m) \<Rightarrow> Inl (DatabaseError ''mark_pending'' m)
      | _ \<Rightarrow> Inr False)"
  using assms(1) completed_not_selected [of d url] assms(2)
  by (simp add: mark_pending_def update_one_fields field_name_def next_fault_def
      split: option.splits pymongo_error.splits)

lemma mark_failed_state:
  assumes "docs db url = Some d" and "fault_now db = None"
  shows "snd (mark_failed now url reason db) =
     (called db)\<lparr>docs := (docs db)(url \<mapsto>
        d(''status'' \<mapsto> Str ''failed'', ''error'' \<mapsto> Str reason, ''updated_at'' \<mapsto> Time now))\<rparr>"
proof -
  have "d ++ map_of [(''status'', Str ''failed''), (''error'', Str reason), (''updated_at'', Time now)] =
        d(''status'' \<mapsto> Str ''failed'', ''error'' \<mapsto> Str reason, ''updated_at'' \<mapsto> Time now)"
    by (rule ext) (simp add: map_add_def)
  then show ?thesis using assms
    by (simp add: mark_failed_def update_one_fields field_name_def next_fault_def matches_def
        split: option.splits del: map_of.simps map_add_upd)
qed

lemma mark_failed_docs:
  assumes "docs db url = Some d"
  shows "docs (snd (mark_failed now url reason db)) url =
     Some (if fault_now db = None
           then d(''status'' \<mapsto> Str ''failed'', ''error'' \<mapsto> Str reason, ''updated_at'' \<mapsto> Time now)
           else d)"
proof (cases "fault_now db")
  case None
  then show ?thesis using assms by (simp add: mark_failed_state)
next
  case (Some e)
  then show ?thesis using assms by (simp add: mark_failed_def update_one_def next_fault_def)
qed

text \<open>
  C2, as amended. For a record whose status is completed: \<open>upsert\<close> leaves it completed,
  whatever the driver does; \<open>mark_pending\<close> leaves the collection as it is and returns
  false (it raises \<open>DatabaseError\<close> when the driver fails with another error than a
  duplicate key); \<open>mark_failed\<close> does not look at the status and, when the driver
  runs, sets status failed, the error and \<^verbatim>\<open>updated_at\<close>.
\<close>

theorem completed_record_transitions:
  assumes "docs db url = Some d" and "d ''status'' = Some (Str ''completed'')"
  shows "(\<exists>d'. docs (snd (upsert str_of now url data db)) url = Some d' \<and>
               d' ''status'' = Some (Str ''completed'')) \<and>
         docs (snd (mark_pending now url db)) = docs db \<and>
         fst (mark_pending now url db) =
           (case fault_now db of
              Some (PyMongoError m) \<Rightarrow> Inl (DatabaseError ''mark_pending'' m)
            | _ \<Rightarrow> Inr False) \<and>
         docs (snd (mark_failed now url reason db)) url =
           Some (if fault_now db = None
                 then d(''status'' \<mapsto> Str ''failed'', ''error'' \<mapsto> Str reason,
                        ''updated_at'' \<mapsto> Time now)
                 else d)"
proof (intro conjI)
  show "\<exists>d'. docs (snd (upsert str_of now url data db)) url = Some d' \<and>
               d' ''status'' = Some (Str ''completed'')"
    by (rule upsert_keeps_completed [OF assms])
  show "docs (snd (mark_pending now url db)) = docs db"
    by (rule mark_pending_completed_docs [OF assms])
  show "fst (mark_pending now url db) =
           (case fault_now db of
              Some (PyMongoError m) \<Rightarrow> Inl (DatabaseError ''mark_pending'' m)
            | _ \<Rightarrow> Inr False)"
    by (rule mark_pending_completed_result [OF assms])
  show "docs (snd (mark_failed now url reason db)) url =
           Some (if fault_now db = None
                 then d(''status'' \<mapsto> Str ''failed'', ''error'' \<mapsto> Str reason,
                        ''updated_at'' \<mapsto> Time now)
                 else d)"
    by (rule mark_failed_docs [OF assms(1)])
qed

text \<open>The theorem at the store that holds a completed record for the example URL.\<close>

theorem completed_record_transitions_witness:
  "(\<exists>d'. docs (snd (upsert oid_str 9 example_url [(''status_code'', Num 200)]
                      (store_with ''completed''))) example_url = Some d' \<and>
         d' ''status'' = Some (Str ''completed'')) \<and>
   docs (snd (mark_pending 9 example_url (store_with ''completed''))) =
     docs (store_with ''completed'') \<and>
   fst (mark_pending 9 example_url (store_with ''completed'')) = Inr False"
proof -
  have p1: "docs (store_with ''completed'') example_url = Some (example_doc ''completed'')"
    by (simp add: store_with_def)
  have p2: "example_doc ''completed'' ''status'' = Some (Str ''completed'')"
    by (simp add: example_doc_def)
  have f: "fault_now (store_with ''completed'') = None"
    by (simp add: fault_now_def store_with_def)
  show ?thesis
    using completed_record_transitions [OF p1 p2, where str_of = oid_str and now = 9
        and data = "[(''status_code'', Num 200)]" and reason = "''HTTP 404''"]
    by (simp add: f)
qed

text \<open>
  The claim as stated fails: \<open>mark_failed\<close> on the completed record of the example URL
  leaves a record whose status is failed.
\<close>

theorem completed_to_failed_counterexample:
  "docs (store_with ''completed'') example_url = Some (example_doc ''completed'') \<and>
   example_doc ''completed'' ''status'' = Some (Str ''completed'') \<and>
   docs (snd (mark_failed 9 example_url ''HTTP 404'' (store_with ''completed''))) example_url =
     Some ((example_doc ''completed'')
            (''status'' \<mapsto> Str ''failed'', ''error'' \<mapsto> Str ''HTTP 404'',
             ''updated_at'' \<mapsto> Time 9)) \<and>
   ((example_doc ''completed'')
      (''status'' \<mapsto> Str ''failed'', ''error'' \<mapsto> Str ''HTTP 404'', ''updated_at'' \<mapsto> Time 9))
     ''status'' = Some (Str ''failed'')"
  by (auto simp add: store_defs example_defs fun_eq_iff)

subsection \<open>\<open>mark_pending\<close>\<close>

lemma mark_pending_insert:
  assumes "docs db url = None" and "fault_now db = None"
  shows "mark_pending now url db =
        (Inr True,
         (called db)\<lparr>docs := (docs db)(url \<mapsto>
             [''url'' \<mapsto> Str url, ''status'' \<mapsto> Str ''pending'', ''updated_at'' \<mapsto> Time now,
              ''created_at'' \<mapsto> Time now, ''_id'' \<mapsto> ObjectId (next_oid db)]),
           next_oid := Suc (next_oid db)\<rparr>)"
proof -
  have "[''url'' \<mapsto> Str url] ++ map_of [(''created_at'', Time now)] ++
          map_of [(''url'', Str url), (''status'', Str ''pending''), (''updated_at'', Time now)] =
        [''url'' \<mapsto> Str url, ''status'' \<mapsto> Str ''pending'', ''updated_at'' \<mapsto> Time now,
              ''created_at'' \<mapsto> Time now]"
    by (rule ext) (simp add: map_add_def)
  then show ?thesis using assms
    by (simp add: mark_pending_def update_one_fields field_name_def next_fault_def Let_def
        del: map_of.simps map_add_upd)
qed

lemma mark_pending_failed:
  assumes "docs db url = Some d" and "d ''status'' = Some (Str ''failed'')"
    and "fault_now db = None"
  shows "mark_pending now url db =
        (Inr True,
         (called db)\<lparr>docs := (docs db)(url \<mapsto>
             d(''url'' \<mapsto> Str url, ''status'' \<mapsto> Str ''pending'', ''updated_at'' \<mapsto> Time now))\<rparr>)"
proof -
  have "d ++ map_of [(''url'', Str url), (''status'', Str ''pending''), (''updated_at'', Time now)] =
        d(''url'' \<mapsto> Str url, ''status'' \<mapsto> Str ''pending'', ''updated_at'' \<mapsto> Time now)"
    by (rule ext) (simp add: map_add_def)
  then show ?thesis using assms
    by (simp add: mark_pending_def update_one_fields field_name_def next_fault_def matches_def Let_def
        del: map_of.simps map_add_upd)
qed

lemma mark_pending_skip:
  assumes "docs db url = Some d"
    and "d ''status'' = Some (Str ''completed'') \<or> d ''status'' = Some (Str ''pending'')"
    and "fault_now db = None"
  shows "mark_pending now url db = (Inr False, called db)"
  using assms(1,3) completed_not_selected [of d url] assms(2)
  by (simp add: mark_pending_def update_one_fields field_name_def next_fault_def)

lemma mark_pending_race:
  assumes "fault_now db = Some (DuplicateKeyError m)"
  shows "mark_pending now url db = (Inr False, called db)"
  using assms by (simp add: mark_pending_def update_one_def next_fault_def)

text \<open>
  C3. While the driver runs, \<open>mark_pending\<close> returns true when the URL has no record,
  and inserts one with status pending and both timestamps set to \<open>now\<close>; it returns
  true when the record's status is failed, and sets status pending and
  \<^verbatim>\<open>updated_at\<close>; it returns false and leaves the collection as it is when the status
  is completed or pending. A duplicate-key error of the driver also gives false and
  leaves the collection as it is. (\<open>called db\<close> is \<open>db\<close> with one driver call made.)
\<close>

theorem mark_pending_spec:
  "(docs db url = None \<and> fault_now db = None \<longrightarrow>
      mark_pending now url db =
        (Inr True,
         (called db)\<lparr>docs := (docs db)(url \<mapsto>
             [''url'' \<mapsto> Str url, ''status'' \<mapsto> Str ''pending'', ''updated_at'' \<mapsto> Time now,
              ''created_at'' \<mapsto> Time now, ''_id'' \<mapsto> ObjectId (next_oid db)]),
           next_oid := Suc (next_oid db)\<rparr>)) \<and>
   (docs db url = Some d \<and> d ''status'' = Some (Str ''failed'') \<and> fault_now db = None \<longrightarrow>
      mark_pending now url db =
        (Inr True,
         (called db)\<lparr>docs := (docs db)(url \<mapsto>
             d(''url'' \<mapsto> Str url, ''status'' \<mapsto> Str ''pending'', ''updated_at'' \<mapsto> Time now))\<rparr>)) \<and>
   (docs db url = Some d \<and>
    (d ''status'' = Some (Str ''completed'') \<or> d ''status'' = Some (Str ''pending'')) \<and>
    fault_now db = None \<longrightarrow>
      mark_pending now url db = (Inr False, called db)) \<and>
   (fault_now db = Some (DuplicateKeyError m) \<longrightarrow>
      mark_pending now url db = (Inr False, called db))"
  using mark_pending_insert mark_pending_failed mark_pending_skip mark_pending_race by blast

text \<open>The theorem at the empty store, at the stores that hold a failed, a completed and a
  pending record, and at a store whose driver raises the duplicate-key error.\<close>

theorem mark_pending_spec_witness:
  "mark_pending 9 example_url empty_store =
     (Inr True,
      empty_store\<lparr>docs := [example_url \<mapsto>
          [''url'' \<mapsto> Str example_url, ''status'' \<mapsto> Str ''pending'', ''updated_at'' \<mapsto> Time 9,
           ''created_at'' \<mapsto> Time 9, ''_id'' \<mapsto> ObjectId 1]],
        next_oid := 2\<rparr>) \<and>
   mark_pending 9 example_url (store_with ''failed'') =
     (Inr True,
      (store_with ''failed'')\<lparr>docs := [example_url \<mapsto>
          (example_doc ''failed'')(''url'' \<mapsto> Str example_url, ''status'' \<mapsto> Str ''pending'',
             ''updated_at'' \<mapsto> Time 9)]\<rparr>) \<and>
   mark_pending 9 example_url (store_with ''completed'') = (Inr False, store_with ''completed'') \<and>
   mark_pending 9 example_url (store_with ''pending'') = (Inr False, store_with ''pending'') \<and>
   mark_pending 9 example_url
       ((store_with ''pending'')\<lparr>faults := [Some (DuplicateKeyError ''E11000'')]\<rparr>) =
     (Inr False, store_with ''pending'')"
proof -
  have e: "mark_pending 9 example_url empty_store =
     (Inr True,
      (called empty_store)\<lparr>docs := (docs empty_store)(example_url \<mapsto>
          [''url'' \<mapsto> Str example_url, ''status'' \<mapsto> Str ''pending'', ''updated_at'' \<mapsto> Time 9,
           ''created_at'' \<mapsto> Time 9, ''_id'' \<mapsto> ObjectId (next_oid empty_store)]),
        next_oid := Suc (next_oid empty_store)\<rparr>)"
    using mark_pending_spec [where db = empty_store and url = example_url and now = 9]
    by (simp add: empty_store_def fault_now_def)
  have f: "mark_pending 9 example_url (store_with ''failed'') =
     (Inr True,
      (called (store_with ''failed''))\<lparr>docs := (docs (store_with ''failed''))(example_url \<mapsto>
          (example_doc ''failed'')(''url'' \<mapsto> Str example_url, ''status'' \<mapsto> Str ''pending'',
             ''updated_at'' \<mapsto> Time 9))\<rparr>)"
    using mark_pending_spec [where db = "store_with ''failed''" and url = example_url
        and d = "example_doc ''failed''" and now = 9]
    by (simp add: store_with_def example_doc_def fault_now_def)
  have c: "mark_pending 9 example_url (store_with ''completed'') =
     (Inr False, called (store_with ''completed''))"
    using mark_pending_spec [where db = "store_with ''completed''" and url = example_url
        and d = "example_doc ''completed''" and now = 9]
    by (simp add: store_with_def example_doc_def fault_now_def)
  have p: "mark_pending 9 example_url (store_with ''pending'') =
     (Inr False, called (store_with ''pending''))"
    using mark_pending_spec [where db = "store_with ''pending''" and url = example_url
        and d = "example_doc ''pending''" and now = 9]
    by (simp add: store_with_def example_doc_def fault_now_def)
  have r: "mark_pending 9 example_url
       ((store_with ''pending'')\<lparr>faults := [Some (DuplicateKeyError ''E11000'')]\<rparr>) =
     (Inr False, called ((store_with ''pending'')\<lparr>faults := [Some (DuplicateKeyError ''E11000'')]\<rparr>))"
    using mark_pending_spec [where db = "(store_with ''pending'')\<lparr>faults := [Some (DuplicateKeyError ''E11000'')]\<rparr>"
        and url = example_url and now = 9 and m = "''E11000''"]
    by (simp add: fault_now_def)
  show ?thesis
    unfolding e f c p r by (simp add: called_def empty_store_def store_with_def)
qed

subsection \<open>\<open>upsert\<close>\<close>











subsection \<open>Errors of the store\<close>

text \<open>Three of the four methods turn an error of the driver into a \<open>DatabaseError\<close> with
  their name and the driver's message.\<close>

lemma store_errors_surface:
  assumes "fault_now db = Some (PyMongoError m)"
  shows "find_by_url url db = (Inl (DatabaseError ''find_by_url'' m), called db)"
    and "upsert str_of now url f db = (Inl (DatabaseError ''upsert'' m), called db)"
    and "mark_pending now url db = (Inl (DatabaseError ''mark_pending'' m), called db)"
  using assms
  by (simp_all add: find_by_url_def find_one_def upsert_def mark_pending_def update_one_def
      next_fault_def)

text \<open>
  C9. \<open>mark_failed\<close> does not surface an error of the store: when the driver raises
  \<open>e\<close> at its call, \<open>mark_failed\<close> returns normally, and nothing but the consumed
  fault tells the state after from the state before.
\<close>

theorem mark_failed_swallows_store_error:
  "mark_failed now url reason (db\<lparr>faults := Some e # fs\<rparr>) = (Inr (), db\<lparr>faults := fs\<rparr>)"
  by (simp add: mark_failed_def update_one_def next_fault_def fault_now_def called_def)

section \<open>The fetcher\<close>

lemmas fetch_defs = fetch_url_def PERMANENT_STATUS_CODES_def TRANSIENT_STATUS_CODES_def
  str_int_def str_nat_def str_nat_acc_lt str_nat_acc_ge digit_char_def

text \<open>On a response, the two sets of status codes decide, as the claim says.\<close>

lemma fetch_url_response_classes:
  assumes "net url = Response status h c t"
  shows "(\<exists>r. fetch_url cfg net url = Inl (PermanentCollectionError url r)) =
           (status \<in> {400, 401, 403, 404, 405, 406, 410, 414, 451})"
    and "(\<exists>r. fetch_url cfg net url = Inl (TransientCollectionError url r)) =
           (status \<in> {408, 429, 500, 502, 503, 504})"
    and "(fetch_url cfg net url =
            Inr \<lparr>headers = h, cookies = c, page_source = t, status_code = status\<rparr>) =
           (status \<notin> {400, 401, 403, 404, 405, 406, 410, 414, 451} \<and>
            status \<notin> {408, 429, 500, 502, 503, 504})"
  using assms
  by (auto simp add: fetch_url_def PERMANENT_STATUS_CODES_def TRANSIENT_STATUS_CODES_def)

text \<open>On an exception of the HTTP library: a timeout and any unclassified error are
  transient, too many redirects are permanent, and a connect error is permanent exactly
  when its text has one of the four DNS phrases.\<close>

lemma fetch_url_exceptions:
  shows "net url = TimeoutException m \<Longrightarrow>
           \<exists>r. fetch_url cfg net url = Inl (TransientCollectionError url r)"
    and "net url = TooManyRedirects m \<Longrightarrow>
           \<exists>r. fetch_url cfg net url = Inl (PermanentCollectionError url r)"
    and "net url = HTTPError m \<Longrightarrow>
           \<exists>r. fetch_url cfg net url = Inl (TransientCollectionError url r)"
    and "net url = ConnectError m \<Longrightarrow>
           (\<exists>r. fetch_url cfg net url = Inl (PermanentCollectionError url r)) =
           (contains (lower m) ''name or service not known'' \<or>
            contains (lower m) ''nodename nor servname'' \<or>
            contains (lower m) ''no address associated'' \<or>
            contains (lower m) ''getaddrinfo failed'')"
  by (auto simp add: fetch_url_def Let_def)

text \<open>
  C5. A failed verification of the server's certificate reaches \<open>fetch_url\<close> as a connect
  error of the HTTP library, with the text of the TLS library. \<open>fetch_url\<close> finds none
  of its DNS phrases in it and raises the transient error, not the permanent one.
\<close>

theorem tls_failure_is_transient:
  "fetch_url cfg (net(url := ConnectError
       ''[SSL: CERTIFICATE_VERIFY_FAILED] certificate verify failed: self-signed certificate (_ssl.c:1006)'')) url =
     Inl (TransientCollectionError url
       ''Connection failed: [SSL: CERTIFICATE_VERIFY_FAILED] certificate verify failed: self-signed certificate (_ssl.c:1006)'')"
  by (simp add: fetch_url_def lower_def lower_char_def startswith_def)

section \<open>The producer\<close>

lemmas queue_defs = produce_def enqueue_def publish_with_retry_def publish_to_dlq_def
  process_url_def main_log_def poll_def commit_def mark_failed_in_db_def to_dlq_def
  consume_message_def

lemma close_producer_uninitialized: "\<not> producer_initialized (close_producer w)"
  by (simp add: close_producer_def)

text \<open>
  C10. While the producer is not initialized, \<open>enqueue\<close>, \<open>publish_with_retry\<close> and
  \<open>publish_to_dlq\<close> raise \<open>RuntimeError\<close> and leave the state, and with it the
  published messages, as it is.
\<close>

theorem producer_not_initialized:
  assumes "\<not> producer_initialized w"
  shows "enqueue cfg url w =
           (Inl (RuntimeError
              ''Kafka producer is not initialized. Ensure init_producer() was called during startup.''),
            w) \<and>
         publish_with_retry cfg url retry_count w =
           (Inl (RuntimeError ''Kafka producer is not initialized.''), w) \<and>
         publish_to_dlq cfg url retry_count err w =
           (Inl (RuntimeError ''Kafka producer is not initialized.''), w)"
  using assms by (simp add: enqueue_def publish_with_retry_def publish_to_dlq_def)

text \<open>The theorem before \<open>init_producer\<close> and after \<open>close_producer\<close>.\<close>

theorem producer_not_initialized_witness:
  "enqueue default_settings example_url
       ((example_world empty_store)\<lparr>producer_initialized := False\<rparr>) =
     (Inl (RuntimeError
        ''Kafka producer is not initialized. Ensure init_producer() was called during startup.''),
      (example_world empty_store)\<lparr>producer_initialized := False\<rparr>) \<and>
   publish_with_retry default_settings example_url 1
       (close_producer (init_producer (example_world empty_store))) =
     (Inl (RuntimeError ''Kafka producer is not initialized.''),
      close_producer (init_producer (example_world empty_store))) \<and>
   publish_to_dlq default_settings example_url 3 ''HTTP 503''
       (close_producer (init_producer (example_world empty_store))) =
     (Inl (RuntimeError ''Kafka producer is not initialized.''),
      close_producer (init_producer (example_world empty_store))) \<and>
   published (close_producer (init_producer (example_world empty_store))) = []"
proof -
  have a: "\<not> producer_initialized ((example_world empty_store)\<lparr>producer_initialized := False\<rparr>)"
    by simp
  have b: "\<not> producer_initialized (close_producer (init_producer (example_world empty_store)))"
    by (rule close_producer_uninitialized)
  have c: "published (close_producer (init_producer (example_world empty_store))) = []"
    by (simp add: close_producer_def init_producer_def example_world_def)
  show ?thesis
    using producer_not_initialized [OF a, where cfg = default_settings and url = example_url]
      producer_not_initialized [OF b, where cfg = default_settings and url = example_url
        and retry_count = 1]
      producer_not_initialized [OF b, where cfg = default_settings and url = example_url
        and retry_count = 3 and err = "''HTTP 503''"] c
    by simp
qed

section \<open>The metadata service\<close>

lemma database_enqueue [simp]: "database (snd (enqueue cfg url w)) = database w"
  by (simp add: enqueue_def produce_def split: list.splits option.splits)

lemma is_completed_iff:
  "is_completed doc = (\<exists>d. doc = Some d \<and> d ''status'' = Some (Str ''completed''))"
  by (auto simp add: is_completed_def split: option.splits)

text \<open>
  C8. Let the canonicalizer return \<open>url\<close> for the raw URL and let \<open>find_by_url\<close> answer
  with \<open>doc\<close>. When \<open>doc\<close> is a record with status completed, \<open>get_metadata\<close> returns
  the record that the class makes of it, with true, and neither marks nor enqueues.
  When there is no record or its status is not completed, and \<open>mark_pending\<close> answers
  with \<open>b\<close>, \<open>get_metadata\<close> returns no record and false whatever \<open>enqueue\<close> does; the
  state is the one that \<open>enqueue\<close> leaves when \<open>b\<close> is true, and nothing is enqueued
  when \<open>b\<close> is false; the store is as \<open>mark_pending\<close> left it. And \<open>get_metadata\<close>
  returns a record with true only when \<open>doc\<close> is a record with status completed.
\<close>

theorem get_metadata_spec:
  assumes "normalize_url check_host raw_url = Inr url"
    and "find_by_url url (database w) = (Inr doc, db1)"
  shows "(doc = Some d \<and> d ''status'' = Some (Str ''completed'') \<and>
          from_mongo str_of cls doc = Inr r \<longrightarrow>
            get_metadata check_host str_of cls cfg now raw_url w =
              (Inr (Some r, True), w\<lparr>database := db1\<rparr>)) \<and>
         ((doc = None \<or> (\<exists>d'. doc = Some d' \<and> d' ''status'' \<noteq> Some (Str ''completed''))) \<and>
          mark_pending now url db1 = (Inr b, db2) \<longrightarrow>
            fst (get_metadata check_host str_of cls cfg now raw_url w) = Inr (None, False) \<and>
            snd (get_metadata check_host str_of cls cfg now raw_url w) =
              (if b then snd (enqueue cfg url (w\<lparr>database := db2\<rparr>)) else w\<lparr>database := db2\<rparr>) \<and>
            database (snd (get_metadata check_host str_of cls cfg now raw_url w)) = db2) \<and>
         (fst (get_metadata check_host str_of cls cfg now raw_url w) = Inr (Some r', True) \<longrightarrow>
            (\<exists>d'. doc = Some d' \<and> d' ''status'' = Some (Str ''completed'')))"
  using assms
  by (auto simp add: get_metadata_def is_completed_iff split: sum.splits prod.splits)

text \<open>The theorem for the raw URL \<^verbatim>\<open>Example.com\<close>: on a store with a completed record
  (a hit), on the empty store (marked and enqueued), on a store with a pending record
  (neither), and on the empty store with a producer that is not initialized (marked, the
  failure of \<open>enqueue\<close> swallowed). The class is the one that keeps its arguments.\<close>

theorem get_metadata_spec_witness:
  "get_metadata accept_all oid_str Inr default_settings 9 ''Example.com''
       (example_world (store_with ''completed'')) =
     (Inr (Some [(''id'', Str ''1''), (''url'', Str example_url), (''headers'', Dict []),
                 (''cookies'', Dict []), (''page_source'', Str []), (''status_code'', Num 0),
                 (''status'', Str ''completed''), (''error'', PyNone),
                 (''created_at'', Time 1), (''updated_at'', Time 1)], True),
      example_world (store_with ''completed'')) \<and>
   fst (get_metadata accept_all oid_str Inr default_settings 9 ''Example.com'' (example_world empty_store)) =
     Inr (None, False) \<and>
   published (snd (get_metadata accept_all oid_str Inr default_settings 9 ''Example.com''
                     (example_world empty_store))) =
     [(''metadata-tasks'', Task (Some example_url) None None)] \<and>
   get_metadata accept_all oid_str Inr default_settings 9 ''Example.com''
       (example_world (store_with ''pending'')) =
     (Inr (None, False), example_world (store_with ''pending'')) \<and>
   fst (get_metadata accept_all oid_str Inr default_settings 9 ''Example.com''
          ((example_world empty_store)\<lparr>producer_initialized := False\<rparr>)) = Inr (None, False) \<and>
   published (snd (get_metadata accept_all oid_str Inr default_settings 9 ''Example.com''
          ((example_world empty_store)\<lparr>producer_initialized := False\<rparr>))) = []"
proof -
  note n = canon_example [of accept_all]
  have one: "str_nat (Suc 0) = ''1''"
    by (simp add: str_nat_def str_nat_acc_lt digit_char_def)
  have fc: "find_by_url example_url (database (example_world (store_with ''completed''))) =
      (Inr (Some (example_doc ''completed'')), store_with ''completed'')"
    by (simp add: find_by_url_def find_one_def next_fault_def fault_now_def called_def
        example_world_def store_with_def)
  have fe: "find_by_url example_url (database (example_world empty_store)) =
      (Inr None, empty_store)"
    by (simp add: store_defs example_world_def empty_store_def)
  have fp: "find_by_url example_url (database (example_world (store_with ''pending''))) =
      (Inr (Some (example_doc ''pending'')), store_with ''pending'')"
    by (simp add: find_by_url_def find_one_def next_fault_def fault_now_def called_def
        example_world_def store_with_def)
  have fu: "find_by_url example_url
        (database ((example_world empty_store)\<lparr>producer_initialized := False\<rparr>)) =
      (Inr None, empty_store)"
    by (simp add: store_defs example_world_def empty_store_def)
  have mc: "from_mongo oid_str Inr (Some (example_doc ''completed'')) =
      Inr [(''id'', Str ''1''), (''url'', Str example_url), (''headers'', Dict []),
           (''cookies'', Dict []), (''page_source'', Str []), (''status_code'', Num 0),
           (''status'', Str ''completed''), (''error'', PyNone),
           (''created_at'', Time 1), (''updated_at'', Time 1)]"
    by (simp add: from_mongo_def dict_get_def example_doc_def one)
  have me: "mark_pending 9 example_url empty_store = (Inr True, snd (mark_pending 9 example_url empty_store))"
    by (simp add: store_defs empty_store_def)
  have mp: "mark_pending 9 example_url (store_with ''pending'') = (Inr False, store_with ''pending'')"
    by (simp add: store_defs store_with_def example_doc_def)
  have hit: "get_metadata accept_all oid_str Inr default_settings 9 ''Example.com''
       (example_world (store_with ''completed'')) =
     (Inr (Some [(''id'', Str ''1''), (''url'', Str example_url), (''headers'', Dict []),
                 (''cookies'', Dict []), (''page_source'', Str []), (''status_code'', Num 0),
                 (''status'', Str ''completed''), (''error'', PyNone),
                 (''created_at'', Time 1), (''updated_at'', Time 1)], True),
      (example_world (store_with ''completed''))\<lparr>database := store_with ''completed''\<rparr>)"
    using get_metadata_spec [OF n fc, where d = "example_doc ''completed''" and str_of = oid_str
        and cls = Inr and cfg = default_settings and now = 9] mc
    by (simp add: example_doc_def)
  have miss: "fst (get_metadata accept_all oid_str Inr default_settings 9 ''Example.com''
                    (example_world empty_store)) = Inr (None, False) \<and>
      snd (get_metadata accept_all oid_str Inr default_settings 9 ''Example.com'' (example_world empty_store)) =
        snd (enqueue default_settings example_url
               ((example_world empty_store)\<lparr>database := snd (mark_pending 9 example_url empty_store)\<rparr>))"
    using get_metadata_spec [OF n fe, where str_of = oid_str and cls = Inr and now = 9
        and b = True and ?db2.0 = "snd (mark_pending 9 example_url empty_store)"
        and cfg = default_settings] me
    by simp
  have skip: "fst (get_metadata accept_all oid_str Inr default_settings 9 ''Example.com''
                    (example_world (store_with ''pending''))) = Inr (None, False) \<and>
      snd (get_metadata accept_all oid_str Inr default_settings 9 ''Example.com''
             (example_world (store_with ''pending''))) =
        (example_world (store_with ''pending''))\<lparr>database := store_with ''pending''\<rparr>"
    using get_metadata_spec [OF n fp, where str_of = oid_str and cls = Inr and now = 9
        and b = False and ?db2.0 = "store_with ''pending''" and cfg = default_settings] mp
    by (simp add: example_doc_def)
  have down: "fst (get_metadata accept_all oid_str Inr default_settings 9 ''Example.com''
                    ((example_world empty_store)\<lparr>producer_initialized := False\<rparr>)) =
        Inr (None, False) \<and>
      snd (get_metadata accept_all oid_str Inr default_settings 9 ''Example.com''
             ((example_world empty_store)\<lparr>producer_initialized := False\<rparr>)) =
        snd (enqueue default_settings example_url
               ((example_world empty_store)\<lparr>producer_initialized := False,
                  database := snd (mark_pending 9 example_url empty_store)\<rparr>))"
    using get_metadata_spec [OF n fu, where str_of = oid_str and cls = Inr and now = 9
        and b = True and ?db2.0 = "snd (mark_pending 9 example_url empty_store)"
        and cfg = default_settings] me
    by simp
  show ?thesis
    using hit miss skip down
    by (simp add: prod_eq_iff enqueue_def produce_def example_world_def default_settings_def)
qed

section \<open>The consumer\<close>

lemma consume_loop_idle:
  assumes "position w = length (main_log cfg w)"
  shows "consume_loop str_of cfg net ts w = (None, w)"
  using assms by (induction ts) (simp_all add: poll_def)

text \<open>One processing of a task whose fetch fails transiently, by a producer that accepts
  the message: at the maximum the task goes to the dead-letter topic and the record is
  marked, below it the task goes back to the main topic; the offset is committed.\<close>

lemma consume_message_transient:
  assumes "fetch_url cfg net url = Inl (TransientCollectionError url reason)" and "url \<noteq> []"
    and "producer_initialized w" and "produce_faults w = []"
  shows "consume_message str_of cfg net now offset (Task (Some url) rc e) w =
     (None,
      (let n = (case rc of None \<Rightarrow> 0 | Some k \<Rightarrow> k) + 1;
           msg = message (TransientCollectionError url reason)
       in if kafka_max_retries cfg \<le> n
          then (w\<lparr>published := published w @
                    [(kafka_dlq_topic cfg, Task (Some url) (Some n) (Some msg))],
                  database := snd (mark_failed now url msg (database w)),
                  commits := commits w @ [offset]\<rparr>)
          else (w\<lparr>published := published w @ [(kafka_topic cfg, Task (Some url) (Some n) None)],
                  commits := commits w @ [offset]\<rparr>)))"
  using assms
  by (simp add: consume_message_def process_url_def to_dlq_def publish_to_dlq_def
      publish_with_retry_def produce_def commit_def mark_failed_in_db_def Let_def
      split: prod.splits)

text \<open>
  C1, as amended. Let the maximum of retries be 3, the two topics differ, and the fetch
  of the URL fail transiently whenever it is made. Let the producer accept every message
  and the store run, let the main topic hold one task for the URL, without a retry
  count, and let the URL have a record \<open>d\<close>. Then the loop, after three iterations or
  more, has re-published the task exactly twice, with retry counts 1 and 2, has
  published it once to the dead-letter topic, with retry count 3 and the error, at the
  third processing, has committed the three offsets, and has marked the record failed
  at the time of the third iteration.
\<close>

theorem retries_exhausted:
  assumes "kafka_max_retries cfg = 3" and "kafka_topic cfg \<noteq> kafka_dlq_topic cfg"
    and "fetch_url cfg net url = Inl (TransientCollectionError url reason)" and "url \<noteq> []"
    and "producer_initialized w" and "produce_faults w = []" and "faults (database w) = []"
    and "published w = [(kafka_topic cfg, Task (Some url) None None)]"
    and "position w = 0" and "commits w = []"
    and "docs (database w) url = Some d"
  shows "consume_loop str_of cfg net (t1 # t2 # t3 # later) w =
     (None,
      w\<lparr>position := 3,
         published :=
           [(kafka_topic cfg, Task (Some url) None None),
            (kafka_topic cfg, Task (Some url) (Some 1) None),
            (kafka_topic cfg, Task (Some url) (Some 2) None),
            (kafka_dlq_topic cfg, Task (Some url) (Some 3)
               (Some (message (TransientCollectionError url reason))))],
         database := (database w)\<lparr>docs := (docs (database w))(url \<mapsto>
            d(''status'' \<mapsto> Str ''failed'',
              ''error'' \<mapsto> Str (message (TransientCollectionError url reason)),
              ''updated_at'' \<mapsto> Time t3))\<rparr>,
         commits := [0, 1, 2]\<rparr>)"
proof -
  let ?msg = "message (TransientCollectionError url reason)"
  let ?m0 = "(kafka_topic cfg, Task (Some url) None None)"
  let ?m1 = "(kafka_topic cfg, Task (Some url) (Some 1) None)"
  let ?m2 = "(kafka_topic cfg, Task (Some url) (Some 2) None)"
  let ?m3 = "(kafka_dlq_topic cfg, Task (Some url) (Some 3) (Some ?msg))"
  let ?w1 = "w\<lparr>position := 1, published := [?m0, ?m1], commits := [0]\<rparr>"
  let ?w2 = "w\<lparr>position := 2, published := [?m0, ?m1, ?m2], commits := [0, 1]\<rparr>"
  let ?w3 = "w\<lparr>position := 3, published := [?m0, ?m1, ?m2, ?m3],
         database := (database w)\<lparr>docs := (docs (database w))(url \<mapsto>
            d(''status'' \<mapsto> Str ''failed'', ''error'' \<mapsto> Str ?msg, ''updated_at'' \<mapsto> Time t3))\<rparr>,
         commits := [0, 1, 2]\<rparr>"
  have mf: "snd (mark_failed t3 url ?msg (database w)) =
      (database w)\<lparr>docs := (docs (database w))(url \<mapsto>
            d(''status'' \<mapsto> Str ''failed'', ''error'' \<mapsto> Str ?msg, ''updated_at'' \<mapsto> Time t3))\<rparr>"
    using assms(7,11) by (simp add: mark_failed_state fault_now_def called_idle)
  have s1: "consume_loop str_of cfg net (t1 # t2 # t3 # later) w =
            consume_loop str_of cfg net (t2 # t3 # later) ?w1"
    using assms(1,3-6,8-10)
    by (simp add: poll_def main_log_def consume_message_transient Let_def
        numeral_2_eq_2 numeral_3_eq_3 del: message.simps)
  have s2: "consume_loop str_of cfg net (t2 # t3 # later) ?w1 =
            consume_loop str_of cfg net (t3 # later) ?w2"
    using assms(1,3-6)
    by (simp add: poll_def main_log_def consume_message_transient Let_def
        numeral_2_eq_2 numeral_3_eq_3 del: message.simps)
  have s3: "consume_loop str_of cfg net (t3 # later) ?w2 = consume_loop str_of cfg net later ?w3"
    using assms(1-6) mf
    by (simp add: poll_def main_log_def consume_message_transient Let_def
        numeral_2_eq_2 numeral_3_eq_3 del: message.simps)
  have s4: "consume_loop str_of cfg net later ?w3 = (None, ?w3)"
    using assms(2) by (intro consume_loop_idle) (simp add: main_log_def)
  show ?thesis by (simp only: s1 s2 s3 s4)
qed

text \<open>The theorem with the default settings, for the task that a read has enqueued for
  the example URL, whose target answers 503 to every request, and three iterations.\<close>

theorem retries_exhausted_witness:
  "published (snd (consume_loop oid_str default_settings always_503 [10, 11, 12] queued_world)) =
     [(''metadata-tasks'', Task (Some example_url) None None),
      (''metadata-tasks'', Task (Some example_url) (Some 1) None),
      (''metadata-tasks'', Task (Some example_url) (Some 2) None),
      (''metadata-tasks-dlq'', Task (Some example_url) (Some 3)
         (Some (message (TransientCollectionError example_url
            (''HTTP 503 '' @ em_dash @ '' server error, retryable'')))))] \<and>
   commits (snd (consume_loop oid_str default_settings always_503 [10, 11, 12] queued_world)) =
     [0, 1, 2] \<and>
   docs (database (snd (consume_loop oid_str default_settings always_503 [10, 11, 12]
                          queued_world))) example_url =
     Some ((example_doc ''pending'')
            (''status'' \<mapsto> Str ''failed'',
             ''error'' \<mapsto> Str (message (TransientCollectionError example_url
                (''HTTP 503 '' @ em_dash @ '' server error, retryable''))),
             ''updated_at'' \<mapsto> Time 12))"
proof -
  have p1: "kafka_max_retries default_settings = 3"
    and p2: "kafka_topic default_settings \<noteq> kafka_dlq_topic default_settings"
    by (simp_all add: default_settings_def)
  have p3: "fetch_url default_settings always_503 example_url =
      Inl (TransientCollectionError example_url
             (''HTTP 503 '' @ em_dash @ '' server error, retryable''))"
    by (simp add: fetch_defs always_503_def)
  have p4: "example_url \<noteq> []"
    by (simp add: example_url_def)
  have p5: "producer_initialized queued_world" and p6: "produce_faults queued_world = []"
    and p7: "faults (database queued_world) = []"
    and p8: "published queued_world =
       [(kafka_topic default_settings, Task (Some example_url) None None)]"
    and p9: "position queued_world = 0" and p10: "commits queued_world = []"
    and p11: "docs (database queued_world) example_url = Some (example_doc ''pending'')"
    by (simp_all add: queued_world_def example_world_def store_with_def default_settings_def)
  show ?thesis
    unfolding retries_exhausted [OF p1 p2 p3 p4 p5 p6 p7 p8 p9 p10 p11, where str_of = oid_str
        and ?t1.0 = 10 and ?t2.0 = 11 and ?t3.0 = 12 and later = "[]"]
    by (simp add: default_settings_def)
qed

text \<open>
  The claim as stated fails: with the default maximum of 3, the main topic ends with two
  re-published tasks, with retry counts 1 and 2 and none with 3, and the loop has
  committed three offsets and no fourth, however long it runs: the dead-letter publish
  belongs to the third processing.
\<close>

theorem three_republishes_counterexample:
  "kafka_max_retries default_settings = 3 \<and>
   published (snd (consume_loop oid_str default_settings always_503 [10, 11, 12, 13, 14]
                     queued_world)) =
     [(''metadata-tasks'', Task (Some example_url) None None),
      (''metadata-tasks'', Task (Some example_url) (Some 1) None),
      (''metadata-tasks'', Task (Some example_url) (Some 2) None),
      (''metadata-tasks-dlq'', Task (Some example_url) (Some 3)
         (Some (message (TransientCollectionError example_url
            (''HTTP 503 '' @ em_dash @ '' server error, retryable'')))))] \<and>
   commits (snd (consume_loop oid_str default_settings always_503 [10, 11, 12, 13, 14]
                   queued_world)) = [0, 1, 2]"
  by (simp add: store_defs queue_defs fetch_defs example_defs del: message.simps)

end
